theory Spec2Isabelle
  imports Main
begin

section \<open>Records mirrored from the external store (src/lib/types.ts)\<close>

text \<open>
  Field names follow the TypeScript interfaces; a prefix is added where two interfaces
  share a field name (\<open>id\<close>, \<open>created_at\<close>, \<open>branch\<close>, ...). An optional field
  (\<open>note_id?: string\<close>) is a \<open>string option\<close>; \<open>number\<close> fields hold whole numbers.
\<close>

record Student =
  student_id :: string
  full_name :: string
  email :: string
  academic_year :: int
  semester :: int
  branch :: string
  is_admin :: bool
  student_created_at :: string

record Subject =
  subj_id :: string
  subj_name :: string
  subj_branch :: string
  subj_academic_year :: int
  subj_semester :: int
  is_common :: bool
  subj_created_at :: string

record Bookmark =
  bookmark_id :: string
  user_id :: string
  note_id :: "string option"
  subject_id :: "string option"
  bookmark_created_at :: string

datatype action = added | removed | updated | created

text \<open>\<open>{ success: boolean, message: string }\<close>, the result of addBookmark and removeBookmark.\<close>

record op_result =
  success :: bool
  message :: string

text \<open>\<open>{ ...result, action }\<close>, the result of the second listing's toggleBookmark.\<close>

record toggle_result = op_result +
  action :: action

text \<open>\<open>DatabaseResponse<T>\<close> of types.ts, the result of the first listing's toggleBookmark.\<close>

record 'a DatabaseResponse =
  db_success :: bool
  db_data :: "'a option"
  db_message :: "string option"
  db_action :: "action option"

section \<open>The external data service\<close>

text \<open>
  The hosted backend is outside the repository. What it does with the n-th request it
  receives is an input of the model: it serves the request, it answers with an error object
  (\<open>{ data: null, error: { message } }\<close>), the call rejects (an exception with a name and
  a message), or it never answers. A request that is never answered keeps its caller
  waiting for ever, unless the caller has attached an abort signal to it and aborts it when
  its timer runs out.
\<close>

datatype outcome = Served | Refused string | Rejected string string | Unanswered

text \<open>What the awaiting code gets: \<open>Pending\<close> is the promise that never settles.\<close>

datatype 'a response = Data 'a | Error string | Threw string string | Pending

text \<open>
  What a call of an async function comes to: it returns a value, or it never returns
  because it awaits a promise that never settles. The state of the service after the call
  (or after what the call did before it got stuck) is paired with it.
\<close>

datatype 'a result = Returns 'a | Hangs

datatype key_filter = ByNote string | BySubject string | ByEither string

text \<open>\<open>Partial<Student>\<close>: every field may be absent.\<close>

record StudentPatch =
  p_id :: "string option"
  p_full_name :: "string option"
  p_email :: "string option"
  p_academic_year :: "int option"
  p_semester :: "int option"
  p_branch :: "string option"
  p_is_admin :: "bool option"
  p_created_at :: "string option"

text \<open>
  The requests the client code sends, as the log keeps them: the table, the operation and
  its filter or payload.
\<close>

datatype request =
    SelectBookmarks "string list" string
  | InsertBookmark string "string option" "string option"
  | DeleteBookmarks string key_filter
  | CountStudents
  | SelectStudent string
  | UpsertStudent StudentPatch
  | SelectSubjects int int string
  | SelectSubjectsFallback int

text \<open>
  The state outside the client code: the three tables it reads and writes, the defaults the
  students table gives to absent columns, what the service does with its n-th request, the
  ids and the times it hands out, the log of the requests sent so far and the log of the
  delays the client has waited (in milliseconds).
\<close>

record world =
  bookmarks :: "Bookmark list"
  students :: "Student list"
  subjects :: "Subject list"
  student_defaults :: Student
  outcomes :: "nat \<Rightarrow> outcome"
  uuid :: "nat \<Rightarrow> string"
  clock :: "nat \<Rightarrow> string"
  requests :: "request list"
  sleeps :: "nat list"

text \<open>Modelled from the spec: sending a request logs it and reads the service's outcome for it.\<close>

definition send :: "request \<Rightarrow> world \<Rightarrow> outcome \<times> world" where
  "send rq w = (outcomes w (length (requests w)), w\<lparr>requests := requests w @ [rq]\<rparr>)"

text \<open>\<open>new Date().toISOString()\<close>.\<close>

definition now :: "world \<Rightarrow> string" where
  "now w = clock w (length (requests w))"

text \<open>\<open>await new Promise(r => setTimeout(r, ms))\<close>: the wait is logged.\<close>

definition sleep :: "nat \<Rightarrow> world \<Rightarrow> world" where
  "sleep ms w = w\<lparr>sleeps := sleeps w @ [ms]\<rparr>"

text \<open>What the client sees of a request that was not served.\<close>

definition failed :: "outcome \<Rightarrow> 'a response" where
  "failed oc = (case oc of Refused m \<Rightarrow> Error m | Rejected n m \<Rightarrow> Threw n m
                | Unanswered \<Rightarrow> Pending | Served \<Rightarrow> Error [])"

text \<open>
  Modelled from the spec: \<open>from('bookmarks').select(cols).eq('user_id', u)\<close>. The rows of the
  user, with the columns that were not selected left undefined.
\<close>

definition project :: "string list \<Rightarrow> Bookmark \<Rightarrow> Bookmark" where
  "project cols b = b\<lparr>note_id := (if ''note_id'' \<in> set cols \<or> ''*'' \<in> set cols then note_id b else None),
                      subject_id := (if ''subject_id'' \<in> set cols \<or> ''*'' \<in> set cols then subject_id b else None)\<rparr>"

definition select_bookmarks :: "string list \<Rightarrow> string \<Rightarrow> world \<Rightarrow> Bookmark list response \<times> world" where
  "select_bookmarks cols u w =
     (case send (SelectBookmarks cols u) w of
        (Served, w1) \<Rightarrow> (Data (map (project cols) (filter (\<lambda>b. user_id b = u) (bookmarks w1))), w1)
      | (oc, w1) \<Rightarrow> (failed oc, w1))"

text \<open>
  Modelled from the spec: \<open>from('bookmarks').insert({ user_id, note_id, subject_id })\<close>. The
  service assigns the row's id and creation time.
\<close>

definition insert_bookmark :: "string \<Rightarrow> string option \<Rightarrow> string option \<Rightarrow> world \<Rightarrow> Bookmark response \<times> world" where
  "insert_bookmark u n s w =
     (case send (InsertBookmark u n s) w of
        (Served, w1) \<Rightarrow>
          (let row = \<lparr>bookmark_id = uuid w (length (requests w)), user_id = u, note_id = n,
                       subject_id = s, bookmark_created_at = now w\<rparr>
           in (Data row, w1\<lparr>bookmarks := bookmarks w1 @ [row]\<rparr>))
      | (oc, w1) \<Rightarrow> (failed oc, w1))"

fun matches :: "key_filter \<Rightarrow> Bookmark \<Rightarrow> bool" where
  "matches (ByNote i) b = (note_id b = Some i)"
| "matches (BySubject i) b = (subject_id b = Some i)"
| "matches (ByEither i) b = (subject_id b = Some i \<or> note_id b = Some i)"

text \<open>
  Modelled from the spec: \<open>from('bookmarks').delete().eq('user_id', u)\<close> with a filter on the
  key columns. Deleting no row is not an error.
\<close>

definition delete_bookmarks :: "string \<Rightarrow> key_filter \<Rightarrow> world \<Rightarrow> unit response \<times> world" where
  "delete_bookmarks u f w =
     (case send (DeleteBookmarks u f) w of
        (Served, w1) \<Rightarrow>
          (Data (), w1\<lparr>bookmarks := filter (\<lambda>b. \<not> (user_id b = u \<and> matches f b)) (bookmarks w1)\<rparr>)
      | (oc, w1) \<Rightarrow> (failed oc, w1))"

text \<open>
  Modelled from the spec: \<open>from('students').select('count', { count: 'exact', head: true })\<close>,
  the lightweight query of the connection test.
\<close>

definition count_students :: "world \<Rightarrow> unit response \<times> world" where
  "count_students w =
     (case send CountStudents w of
        (Served, w1) \<Rightarrow> (Data (), w1)
      | (oc, w1) \<Rightarrow> (failed oc, w1))"

text \<open>
  Modelled from the spec: \<open>from('students').select(...).eq('id', u).maybeSingle()\<close>. No row is
  the valid empty state (\<open>data: null\<close>); more than one row is an error of \<open>maybeSingle\<close>.
\<close>

definition select_student :: "string \<Rightarrow> world \<Rightarrow> Student option response \<times> world" where
  "select_student u w =
     (case send (SelectStudent u) w of
        (Served, w1) \<Rightarrow>
          (case filter (\<lambda>r. student_id r = u) (students w1) of
             [] \<Rightarrow> (Data None, w1)
           | [r] \<Rightarrow> (Data (Some r), w1)
           | _ \<Rightarrow> (Error ''JSON object requested, multiple (or no) rows returned'', w1))
      | (oc, w1) \<Rightarrow> (failed oc, w1))"

definition or_else :: "'a option \<Rightarrow> 'a \<Rightarrow> 'a" where
  "or_else x d = (case x of None \<Rightarrow> d | Some v \<Rightarrow> v)"

definition patch :: "StudentPatch \<Rightarrow> Student \<Rightarrow> Student" where
  "patch p r =
     \<lparr>student_id = or_else (p_id p) (student_id r),
      full_name = or_else (p_full_name p) (full_name r),
      email = or_else (p_email p) (email r),
      academic_year = or_else (p_academic_year p) (academic_year r),
      semester = or_else (p_semester p) (semester r),
      branch = or_else (p_branch p) (branch r),
      is_admin = or_else (p_is_admin p) (is_admin r),
      student_created_at = or_else (p_created_at p) (student_created_at r)\<rparr>"

text \<open>
  Modelled from the spec: \<open>from('students').upsert(profileData).select().single()\<close>. The row
  with the payload's id is replaced by its update with the payload's columns; when there is
  none, a row is created from the payload, the table's defaults filling absent columns. A
  payload without an id is refused.
\<close>

definition upsert_student :: "StudentPatch \<Rightarrow> world \<Rightarrow> Student response \<times> world" where
  "upsert_student p w =
     (case send (UpsertStudent p) w of
        (Served, w1) \<Rightarrow>
          (case p_id p of
             None \<Rightarrow> (Error ''null value in column id'', w1)
           | Some u \<Rightarrow>
               (let row = (case filter (\<lambda>r. student_id r = u) (students w1) of
                             [] \<Rightarrow> patch p (student_defaults w1)
                           | r # _ \<Rightarrow> patch p r)
                in (Data row, w1\<lparr>students := filter (\<lambda>r. student_id r \<noteq> u) (students w1) @ [row]\<rparr>)))
      | (oc, w1) \<Rightarrow> (failed oc, w1))"

text \<open>
  Modelled from the spec: \<open>from('subjects').select('*').eq('academic_year', y)
  .eq('semester', s).or(`branch.eq.${b},is_common.eq.true`)\<close>.
\<close>

definition select_subjects :: "int \<Rightarrow> int \<Rightarrow> string \<Rightarrow> world \<Rightarrow> Subject list response \<times> world" where
  "select_subjects y s b w =
     (case send (SelectSubjects y s b) w of
        (Served, w1) \<Rightarrow>
          (Data (filter (\<lambda>x. subj_academic_year x = y \<and> subj_semester x = s
                              \<and> (subj_branch x = b \<or> is_common x)) (subjects w1)), w1)
      | (oc, w1) \<Rightarrow> (failed oc, w1))"

text \<open>
  Modelled from the spec:
  \<open>from('subjects').select('*').or(`academic_year.eq.${y},is_common.eq.true`)\<close>.
\<close>

definition select_subjects_fallback :: "int \<Rightarrow> world \<Rightarrow> Subject list response \<times> world" where
  "select_subjects_fallback y w =
     (case send (SelectSubjectsFallback y) w of
        (Served, w1) \<Rightarrow>
          (Data (filter (\<lambda>x. subj_academic_year x = y \<or> is_common x) (subjects w1)), w1)
      | (oc, w1) \<Rightarrow> (failed oc, w1))"

section \<open>Bookmark access, first listing of src/lib/database-fixed.ts (lines 1 to 229)\<close>

text \<open>
  No function of the bookmark module attaches an abort signal to a request, so each of
  them keeps waiting for a request that is never answered.
\<close>

definition fetchUserBookmarks_a :: "string \<Rightarrow> world \<Rightarrow> Bookmark list result \<times> world" where
  "fetchUserBookmarks_a userId w =
     (case select_bookmarks [''*''] userId w of
        (Pending, w1) \<Rightarrow> (Hangs, w1)
      | (Error m, w1) \<Rightarrow> (Returns [], w1)
      | (Data rows, w1) \<Rightarrow> (if rows = [] then (Returns [], w1) else (Returns rows, w1))
      | (Threw n m, w1) \<Rightarrow> (Returns [], w1))"

text \<open>\<open>x && x === id\<close> on an optional string: undefined and the empty string are falsy.\<close>

definition truthy_and_equal :: "string option \<Rightarrow> string \<Rightarrow> bool" where
  "truthy_and_equal x i = (case x of None \<Rightarrow> False | Some s \<Rightarrow> s \<noteq> [] \<and> s = i)"

definition isBookmarked_a :: "Bookmark list \<Rightarrow> string \<Rightarrow> bool" where
  "isBookmarked_a bs i =
     (if bs = [] then False
      else list_ex (\<lambda>bookmark. truthy_and_equal (subject_id bookmark) i
                              \<or> truthy_and_equal (note_id bookmark) i) bs)"

definition toggleBookmark_a ::
  "string \<Rightarrow> string \<Rightarrow> bool \<Rightarrow> world \<Rightarrow> Bookmark DatabaseResponse result \<times> world" where
  "toggleBookmark_a userId i currentlyBookmarked w =
     (if currentlyBookmarked then
        (case delete_bookmarks userId (ByEither i) w of
           (Pending, w1) \<Rightarrow> (Hangs, w1)
         | (Error m, w1) \<Rightarrow>
             (Returns \<lparr>db_success = False, db_data = None,
               db_message = Some (''Failed to remove bookmark: '' @ m), db_action = None\<rparr>, w1)
         | (Data u, w1) \<Rightarrow>
             (Returns \<lparr>db_success = True, db_data = None,
               db_message = Some ''Bookmark removed successfully'', db_action = Some removed\<rparr>, w1)
         | (Threw n m, w1) \<Rightarrow>
             (Returns \<lparr>db_success = False, db_data = None,
               db_message = Some (''An unexpected error occurred: '' @ m), db_action = None\<rparr>, w1))
      else
        (case insert_bookmark userId (Some i) (Some i) w of
           (Pending, w1) \<Rightarrow> (Hangs, w1)
         | (Error m, w1) \<Rightarrow>
             (Returns \<lparr>db_success = False, db_data = None,
               db_message = Some (''Failed to add bookmark: '' @ m), db_action = None\<rparr>, w1)
         | (Data row, w1) \<Rightarrow>
             (Returns \<lparr>db_success = True, db_data = Some row,
               db_message = Some ''Bookmark added successfully'', db_action = Some added\<rparr>, w1)
         | (Threw n m, w1) \<Rightarrow>
             (Returns \<lparr>db_success = False, db_data = None,
               db_message = Some (''An unexpected error occurred: '' @ m), db_action = None\<rparr>, w1)))"

definition addBookmark_a :: "string \<Rightarrow> string \<Rightarrow> world \<Rightarrow> op_result result \<times> world" where
  "addBookmark_a userId itemId w =
     (if userId = [] \<or> itemId = [] then
        (Returns \<lparr>success = False, message = ''Missing user ID or item ID''\<rparr>, w)
      else
        (case insert_bookmark userId (Some itemId) (Some itemId) w of
           (Pending, w1) \<Rightarrow> (Hangs, w1)
         | (Error m, w1) \<Rightarrow>
             (Returns \<lparr>success = False, message = ''Failed to add bookmark: '' @ m\<rparr>, w1)
         | (Data row, w1) \<Rightarrow>
             (Returns \<lparr>success = True, message = ''Bookmark added successfully''\<rparr>, w1)
         | (Threw n m, w1) \<Rightarrow>
             (Returns \<lparr>success = False,
                       message = ''Failed to add bookmark. Please try again later.''\<rparr>, w1)))"

text \<open>
  removeBookmark is the same text in both listings: delete by note_id; unless that came
  back without an error, delete by subject_id.
\<close>

definition removeBookmark :: "string \<Rightarrow> string \<Rightarrow> world \<Rightarrow> op_result result \<times> world" where
  "removeBookmark userId itemId w =
     (if userId = [] \<or> itemId = [] then
        (Returns \<lparr>success = False, message = ''Missing user ID or item ID''\<rparr>, w)
      else
        (case delete_bookmarks userId (ByNote itemId) w of
           (Pending, w1) \<Rightarrow> (Hangs, w1)
         | (Data u, w1) \<Rightarrow>
             (Returns \<lparr>success = True, message = ''Bookmark removed successfully''\<rparr>, w1)
         | (r1, w1) \<Rightarrow>
             (case delete_bookmarks userId (BySubject itemId) w1 of
                (Pending, w2) \<Rightarrow> (Hangs, w2)
              | (Data u, w2) \<Rightarrow>
                  (Returns \<lparr>success = True, message = ''Bookmark removed successfully''\<rparr>, w2)
              | (Error m, w2) \<Rightarrow> (Returns \<lparr>success = False, message = m\<rparr>, w2)
              | (Threw n m, w2) \<Rightarrow>
                  (Returns \<lparr>success = False,
                            message = ''Failed to remove bookmark. Please try again.''\<rparr>, w2))))"

section \<open>Bookmark access, second listing of src/lib/database-fixed.ts (lines 229 to 462)\<close>

text \<open>
  The two probes run under \<open>Promise.allSettled\<close>: both are sent, the note_id probe first,
  and a rejection of either is a settled result, never an exception. The controller that
  the 2500 ms timer aborts (lines 247 and 248) is passed to neither probe, so the await
  ends only when both probes have been answered.
\<close>

definition fulfilled_ok :: "Bookmark list response \<Rightarrow> bool" where
  "fulfilled_ok r = (case r of Data rows \<Rightarrow> True | _ \<Rightarrow> False)"

definition rows_of :: "Bookmark list response \<Rightarrow> Bookmark list" where
  "rows_of r = (case r of Data rows \<Rightarrow> rows | _ \<Rightarrow> [])"

definition fetchUserBookmarks_b :: "string \<Rightarrow> world \<Rightarrow> Bookmark list result \<times> world" where
  "fetchUserBookmarks_b userId w =
     (if userId = [] then (Returns [], w)
      else
        (let (noteIdResult, w1) =
               select_bookmarks [''id'', ''user_id'', ''note_id'', ''created_at''] userId w;
             (subjectIdResult, w2) =
               select_bookmarks [''id'', ''user_id'', ''subject_id'', ''created_at''] userId w1
         in if noteIdResult = Pending \<or> subjectIdResult = Pending then (Hangs, w2)
            else if fulfilled_ok noteIdResult \<and> rows_of noteIdResult \<noteq> [] then
              (Returns (rows_of noteIdResult), w2)
            else if fulfilled_ok subjectIdResult \<and> rows_of subjectIdResult \<noteq> [] then
              (Returns (map (\<lambda>item. item\<lparr>note_id := subject_id item\<rparr>) (rows_of subjectIdResult)),
               w2)
            else if fulfilled_ok noteIdResult \<or> fulfilled_ok subjectIdResult then (Returns [], w2)
            else (Returns [], w2)))"

definition isBookmarked_b :: "Bookmark list \<Rightarrow> string \<Rightarrow> bool" where
  "isBookmarked_b bs i =
     (list_ex (\<lambda>bookmark. note_id bookmark = Some i \<or> subject_id bookmark = Some i) bs \<or> False)"

definition addBookmark_b :: "string \<Rightarrow> string \<Rightarrow> world \<Rightarrow> op_result result \<times> world" where
  "addBookmark_b userId itemId w =
     (if userId = [] \<or> itemId = [] then
        (Returns \<lparr>success = False, message = ''Missing user ID or item ID''\<rparr>, w)
      else
        (case insert_bookmark userId (Some itemId) None w of
           (Pending, w1) \<Rightarrow> (Hangs, w1)
         | (Data row, w1) \<Rightarrow>
             (Returns \<lparr>success = True, message = ''Bookmark added successfully''\<rparr>, w1)
         | (r1, w1) \<Rightarrow>
             (case insert_bookmark userId None (Some itemId) w1 of
                (Pending, w2) \<Rightarrow> (Hangs, w2)
              | (Data row, w2) \<Rightarrow>
                  (Returns \<lparr>success = True, message = ''Bookmark added successfully''\<rparr>, w2)
              | (Error m, w2) \<Rightarrow> (Returns \<lparr>success = False, message = m\<rparr>, w2)
              | (Threw n m, w2) \<Rightarrow>
                  (Returns \<lparr>success = False,
                            message = ''Failed to add bookmark. Please try again.''\<rparr>, w2))))"


section \<open>Profile and subject access (src/unnamed/part_002, imported as @/lib/supabase-utils)\<close>

text \<open>
  Every function of this module but testSupabaseConnection creates an AbortController and
  a timer that aborts it, "to avoid hanging requests". Only the profile query of
  fetchStudentProfile is given the controller's signal (line 78); the other requests are
  built without it, so the abort reaches nothing and a request that is never answered
  keeps its caller waiting.
\<close>

definition testSupabaseConnection :: "world \<Rightarrow> bool result \<times> world" where
  "testSupabaseConnection w =
     (case count_students w of
        (Pending, w1) \<Rightarrow> (Hangs, w1)
      | (Error m, w1) \<Rightarrow> (Returns False, w1)
      | (Data d, w1) \<Rightarrow> (Returns True, w1)
      | (Threw n m, w1) \<Rightarrow> (Returns False, w1))"

abbreviation maxAttempts :: nat where
  "maxAttempts \<equiv> 3"

text \<open>
  One pass through the \<open>try\<close> block of fetchStudentProfile's loop: \<open>Some v\<close> when the pass
  returns \<open>v\<close>, \<open>None\<close> when it ends in one of the two failure branches (error object, or
  exception caught), which both go on with
  \<open>if (attempt === maxAttempts) return null; wait 500 * Math.pow(2, attempt - 1); retry\<close>.
  The query carries the abort signal: when it is not answered, the timer of the attempt
  aborts it and the pass ends in a failure branch.
\<close>

definition profile_attempt :: "string \<Rightarrow> world \<Rightarrow> Student option option result \<times> world" where
  "profile_attempt userId w =
     (case select_student userId w of
        (Pending, w1) \<Rightarrow> (Returns None, w1)
      | (Error m, w1) \<Rightarrow> (Returns None, w1)
      | (Data d, w1) \<Rightarrow>
          (case d of Some p \<Rightarrow> (Returns (Some (Some p)), w1) | None \<Rightarrow> (Returns (Some None), w1))
      | (Threw n m, w1) \<Rightarrow> (Returns None, w1))"

function profile_loop :: "string \<Rightarrow> nat \<Rightarrow> world \<Rightarrow> Student option result \<times> world" where
  "profile_loop userId attempt0 w =
     (if attempt0 < maxAttempts then
        (let attempt = attempt0 + 1 in
         case profile_attempt userId w of
           (Hangs, w1) \<Rightarrow> (Hangs, w1)
         | (Returns (Some v), w1) \<Rightarrow> (Returns v, w1)
         | (Returns None, w1) \<Rightarrow>
             (if attempt = maxAttempts then (Returns None, w1)
              else profile_loop userId attempt (sleep (500 * 2 ^ (attempt - 1)) w1)))
      else (Returns None, w))"
  by pat_completeness auto
termination
  by (relation "measure (\<lambda>(userId, attempt0, w). maxAttempts - attempt0)") auto

definition fetchStudentProfile :: "string \<Rightarrow> world \<Rightarrow> Student option result \<times> world" where
  "fetchStudentProfile userId w =
     (if userId = [] then (Returns None, w)
      else
        (case testSupabaseConnection w of
           (Hangs, w1) \<Rightarrow> (Hangs, w1)
         | (Returns isConnected, w1) \<Rightarrow> profile_loop userId 0 w1))"

definition createOrUpdateStudentProfile ::
  "string \<Rightarrow> StudentPatch \<Rightarrow> world \<Rightarrow> Student option result \<times> world" where
  "createOrUpdateStudentProfile userId d w =
     (if userId = [] then (Returns None, w)
      else
        (let profileData = d\<lparr>p_id := Some (or_else (p_id d) userId),
                             p_created_at := Some (case p_created_at d of
                                                     None \<Rightarrow> now w
                                                   | Some c \<Rightarrow> if c = [] then now w else c)\<rparr>
         in case upsert_student profileData w of
              (Pending, w1) \<Rightarrow> (Hangs, w1)
            | (Error m, w1) \<Rightarrow> (Returns None, w1)
            | (Data res, w1) \<Rightarrow> (Returns (Some res), w1)
            | (Threw n m, w1) \<Rightarrow> (Returns None, w1)))"

text \<open>The argument of fetchSubjectsForStudent: \<open>string | Student\<close>, or nothing at all.\<close>

datatype student_ref = ById string | ByProfile Student | NoRef

text \<open>
  One pass through the \<open>try\<close> block of fetchSubjectsForStudent's loop, \<open>attempt\<close> already
  incremented: \<open>Some v\<close> when the pass returns \<open>v\<close>, \<open>None\<close> when it ends in a branch that
  goes on with \<open>if (attempt === maxAttempts) return []; wait 500 * attempt; retry\<close> (error
  object, no rows, exception caught). The permissive query is sent when the strict one had
  no rows and \<open>attempt === maxAttempts - 1\<close>; its error object is not read. Neither query
  carries the abort signal.
\<close>

definition subjects_attempt ::
  "int \<Rightarrow> int \<Rightarrow> string \<Rightarrow> nat \<Rightarrow> world \<Rightarrow> Subject list option result \<times> world" where
  "subjects_attempt academicYear sem br attempt w =
     (case select_subjects academicYear sem br w of
        (Pending, w1) \<Rightarrow> (Hangs, w1)
      | (Error m, w1) \<Rightarrow> (Returns None, w1)
      | (Data rows, w1) \<Rightarrow>
          (if rows = [] then
             (if attempt = maxAttempts - 1 then
                (case select_subjects_fallback academicYear w1 of
                   (Pending, w2) \<Rightarrow> (Hangs, w2)
                 | (Data fallbackData, w2) \<Rightarrow>
                     (if fallbackData \<noteq> [] then (Returns (Some fallbackData), w2)
                      else (Returns None, w2))
                 | (Error m, w2) \<Rightarrow> (Returns None, w2)
                 | (Threw n m, w2) \<Rightarrow> (Returns None, w2))
              else (Returns None, w1))
           else (Returns (Some rows), w1))
      | (Threw n m, w1) \<Rightarrow> (Returns None, w1))"

function subjects_loop ::
  "int \<Rightarrow> int \<Rightarrow> string \<Rightarrow> nat \<Rightarrow> world \<Rightarrow> Subject list result \<times> world" where
  "subjects_loop academicYear sem br attempt0 w =
     (if attempt0 < maxAttempts then
        (let attempt = attempt0 + 1 in
         case subjects_attempt academicYear sem br attempt w of
           (Hangs, w1) \<Rightarrow> (Hangs, w1)
         | (Returns (Some v), w1) \<Rightarrow> (Returns v, w1)
         | (Returns None, w1) \<Rightarrow>
             (if attempt = maxAttempts then (Returns [], w1)
              else subjects_loop academicYear sem br attempt (sleep (500 * attempt) w1)))
      else (Returns [], w))"
  by pat_completeness auto
termination
  by (relation "measure (\<lambda>(academicYear, sem, br, attempt0, w). maxAttempts - attempt0)") auto

text \<open>
  fetchSubjectsForStudent from the point where the profile, if one had to be fetched, is
  there (lines 202 to 332).
\<close>

definition subjects_after :: "Student option result \<times> world \<Rightarrow> Subject list result \<times> world" where
  "subjects_after fetched =
     (case fetched of
        (Hangs, w1) \<Rightarrow> (Hangs, w1)
      | (Returns None, w1) \<Rightarrow> (Returns [], w1)
      | (Returns (Some profile), w1) \<Rightarrow>
          subjects_loop (academic_year profile) (semester profile) (branch profile) 0 w1)"

definition fetchSubjectsForStudent :: "student_ref \<Rightarrow> world \<Rightarrow> Subject list result \<times> world" where
  "fetchSubjectsForStudent studentIdOrProfile w =
     (case studentIdOrProfile of
        ById studentId \<Rightarrow> subjects_after (fetchStudentProfile studentId w)
      | NoRef \<Rightarrow> (Returns [], w)
      | ByProfile profile \<Rightarrow>
          subjects_loop (academic_year profile) (semester profile) (branch profile) 0 w)"

definition safeSupabaseOperation ::
  "(world \<Rightarrow> 'a response \<times> world) \<Rightarrow> string \<Rightarrow> 'a \<Rightarrow> world \<Rightarrow> 'a result \<times> world" where
  "safeSupabaseOperation operation errorMessage defaultValue w =
     (case operation w of
        (Pending, w1) \<Rightarrow> (Hangs, w1)
      | (Error m, w1) \<Rightarrow> (Returns defaultValue, w1)
      | (Data d, w1) \<Rightarrow> (Returns d, w1)
      | (Threw n m, w1) \<Rightarrow> (Returns defaultValue, w1))"

section \<open>The home page's connectivity state machine (src/pages/Home.tsx)\<close>

text \<open>
  The signed-in user as the page reads it: \<open>user.id\<close>, \<open>user.email\<close> and
  \<open>user.user_metadata.full_name\<close>.
\<close>

record auth_user =
  uid :: string
  user_email :: "string option"
  meta_full_name :: "string option"

text \<open>The two listings of the bookmark module that \<open>@/lib/database-fixed\<close> may resolve to.\<close>

datatype listing = FirstListing | SecondListing

text \<open>
  The state of the page: the \<open>isEmergencyMode\<close> flag, the \<open>retryAttempt\<close> parameter of
  the URL as \<open>parseInt\<close> reads it (\<open>None\<close> for NaN, 0 when the parameter is absent), the
  number of pending five-second timers of the connection effect (nothing cancels one before
  the page is reloaded), where the run of the userProfile query and the run of the subjects
  query stand (none, one that has sent its first request and has the rest to come, one that
  waits for an answer that never comes), and the react-query cache under the keys
  \<open>['userProfile', user?.id]\<close>, \<open>['subjects']\<close> and \<open>['bookmarks', user?.id]\<close>.
\<close>

datatype fetch_status = Idle | Fetching | Stuck

record home =
  user :: "auth_user option"
  bookmarks_module :: listing
  isEmergencyMode :: bool
  retryAttempt :: "int option"
  retry_timers :: nat
  profile_run :: fetch_status
  subjects_run :: fetch_status
  cache_userProfile :: "Student option"
  cache_subjects :: "Subject list"
  cache_bookmarks :: "Bookmark list option"

text \<open>\<open>a || b || ... || d\<close> on optional strings: the first that is neither undefined nor empty.\<close>

fun first_truthy :: "string option list \<Rightarrow> string \<Rightarrow> string" where
  "first_truthy [] d = d"
| "first_truthy (None # xs) d = first_truthy xs d"
| "first_truthy (Some s # xs) d = (if s \<noteq> [] then s else first_truthy xs d)"

text \<open>\<open>user?.email?.split('@')[0]\<close>.\<close>

definition email_name :: "auth_user option \<Rightarrow> string option" where
  "email_name u = (case u of None \<Rightarrow> None
     | Some a \<Rightarrow> map_option (takeWhile (\<lambda>c. c \<noteq> CHR ''@'')) (user_email a))"

text \<open>\<open>!!user?.id\<close>.\<close>

definition has_user_id :: "home \<Rightarrow> bool" where
  "has_user_id h = (case user h of None \<Rightarrow> False | Some a \<Rightarrow> uid a \<noteq> [])"

definition initial_home :: "auth_user option \<Rightarrow> listing \<Rightarrow> int option \<Rightarrow> home" where
  "initial_home u m r =
     \<lparr>user = u, bookmarks_module = m, isEmergencyMode = False, retryAttempt = r,
      retry_timers = 0, profile_run = Idle, subjects_run = Idle,
      cache_userProfile = None, cache_subjects = [], cache_bookmarks = None\<rparr>"

definition emergencyProfile :: "auth_user option \<Rightarrow> string \<Rightarrow> Student" where
  "emergencyProfile u today =
     \<lparr>student_id = first_truthy [map_option uid u] ''emergency-user'',
      full_name = first_truthy [Option.bind u meta_full_name, email_name u] ''Offline User'',
      email = first_truthy [Option.bind u user_email] ''offline@example.com'',
      academic_year = 1, semester = 1, branch = ''CSE'', is_admin = False,
      student_created_at = today\<rparr>"

definition emergencySubjects :: "string \<Rightarrow> Subject list" where
  "emergencySubjects today =
     [\<lparr>subj_id = ''offline-subject-1'', subj_name = ''Computer Science 101'',
       subj_branch = ''CSE'', subj_academic_year = 1, subj_semester = 1, is_common = True,
       subj_created_at = today\<rparr>,
      \<lparr>subj_id = ''offline-subject-2'', subj_name = ''Data Structures'',
       subj_branch = ''CSE'', subj_academic_year = 1, subj_semester = 1, is_common = False,
       subj_created_at = today\<rparr>]"

definition forceEmergencyMode :: "home \<Rightarrow> world \<Rightarrow> home" where
  "forceEmergencyMode h w =
     h\<lparr>isEmergencyMode := True,
       cache_userProfile := Some (emergencyProfile (user h) (now w)),
       cache_subjects := emergencySubjects (now w),
       cache_bookmarks := Some []\<rparr>"

text \<open>Lines 35 to 41: the effect on the URL's \<open>retryAttempt\<close>; \<open>NaN > 3\<close> is false.\<close>

definition retryAttempt_effect :: "home \<Rightarrow> world \<Rightarrow> home" where
  "retryAttempt_effect h w =
     (case retryAttempt h of
        None \<Rightarrow> h
      | Some n \<Rightarrow> if n > 3 then forceEmergencyMode h w else h)"

text \<open>
  Lines 44 to 55: the user asks to reconnect. The count in the URL is incremented
  (\<open>NaN + 1\<close> is NaN) and the page is reloaded, which starts it afresh with that URL.
\<close>

definition attemptReconnection :: "home \<Rightarrow> home" where
  "attemptReconnection h =
     initial_home (user h) (bookmarks_module h) (map_option (\<lambda>n. n + 1) (retryAttempt h))"

text \<open>
  Lines 108 to 146: the connection effect, given \<open>navigator.onLine\<close>. A failed first test
  schedules a five-second timer; a test that is never answered leaves its \<open>then\<close> handler
  unrun.
\<close>

definition connection_effect :: "bool \<Rightarrow> home \<Rightarrow> world \<Rightarrow> home \<times> world" where
  "connection_effect onLine h w =
     (if \<not> isEmergencyMode h \<and> has_user_id h then
        (if \<not> onLine then (forceEmergencyMode h w, w)
         else
           (case testSupabaseConnection w of
              (Hangs, w1) \<Rightarrow> (h, w1)
            | (Returns isConnected, w1) \<Rightarrow>
                if \<not> isConnected then (h\<lparr>retry_timers := Suc (retry_timers h)\<rparr>, w1)
                else (h, w1)))
      else (h, w))"

text \<open>Lines 125 to 141: a pending timer fires, given \<open>navigator.onLine\<close> at that time.\<close>

definition retry_timer_fired :: "bool \<Rightarrow> home \<Rightarrow> world \<Rightarrow> home \<times> world" where
  "retry_timer_fired onLine h w =
     (if 0 < retry_timers h then
        (let h1 = h\<lparr>retry_timers := retry_timers h - 1\<rparr>
         in if \<not> onLine then (forceEmergencyMode h1 w, w)
            else
              (case testSupabaseConnection w of
                 (Hangs, w1) \<Rightarrow> (h1, w1)
               | (Returns isConnectedRetry, w1) \<Rightarrow>
                   if \<not> isConnectedRetry then (forceEmergencyMode h1 w1, w1) else (h1, w1)))
      else (h, w))"

text \<open>
  Lines 148 to 158: the listeners, which the effect registers while the flag is off and a
  user is signed in. \<open>handleOnline\<close> only logs.
\<close>

definition handleOffline :: "home \<Rightarrow> world \<Rightarrow> home" where
  "handleOffline h w =
     (if \<not> isEmergencyMode h \<and> has_user_id h then
        (if \<not> isEmergencyMode h then forceEmergencyMode h w else h)
      else h)"

definition handleOnline :: "home \<Rightarrow> world \<Rightarrow> home" where
  "handleOnline h w = h"

text \<open>Lines 171 to 230: the userProfile query, its \<open>enabled\<close> option and its \<open>queryFn\<close>.\<close>

definition userProfile_enabled :: "home \<Rightarrow> bool" where
  "userProfile_enabled h = (has_user_id h \<and> \<not> isEmergencyMode h)"

definition defaultProfile :: "auth_user \<Rightarrow> string \<Rightarrow> Student" where
  "defaultProfile a today =
     \<lparr>student_id = uid a,
      full_name = first_truthy [meta_full_name a, email_name (Some a)] ''New User'',
      email = first_truthy [user_email a] [],
      academic_year = 1, semester = 1, branch = ''CSE'', is_admin = False,
      student_created_at = today\<rparr>"

definition as_patch :: "Student \<Rightarrow> StudentPatch" where
  "as_patch r =
     \<lparr>p_id = Some (student_id r), p_full_name = Some (full_name r), p_email = Some (email r),
      p_academic_year = Some (academic_year r), p_semester = Some (semester r),
      p_branch = Some (branch r), p_is_admin = Some (is_admin r),
      p_created_at = Some (student_created_at r)\<rparr>"

text \<open>The \<open>queryFn\<close> from the point where fetchStudentProfile has come back (lines 185 to 204).\<close>

definition userProfile_after ::
  "auth_user \<Rightarrow> Student option result \<times> world \<Rightarrow> Student option result \<times> world" where
  "userProfile_after a fetched =
     (case fetched of
        (Hangs, w1) \<Rightarrow> (Hangs, w1)
      | (Returns (Some profile), w1) \<Rightarrow> (Returns (Some profile), w1)
      | (Returns None, w1) \<Rightarrow>
          (let dflt = defaultProfile a (now w1)
           in case createOrUpdateStudentProfile (uid a) (as_patch dflt) w1 of
                (Hangs, w2) \<Rightarrow> (Hangs, w2)
              | (Returns (Some savedProfile), w2) \<Rightarrow> (Returns (Some savedProfile), w2)
              | (Returns None, w2) \<Rightarrow> (Returns (Some dflt), w2)))"

definition userProfile_queryFn :: "home \<Rightarrow> world \<Rightarrow> Student option result \<times> world" where
  "userProfile_queryFn h w =
     (case user h of
        None \<Rightarrow> (Returns None, w)
      | Some a \<Rightarrow>
          if uid a = [] then (Returns None, w)
          else userProfile_after a (fetchStudentProfile (uid a) w))"

text \<open>Lines 233 to 281: the subjects query.\<close>

definition subjects_enabled :: "home \<Rightarrow> bool" where
  "subjects_enabled h = (has_user_id h \<and> \<not> isEmergencyMode h)"

definition subjects_queryFn :: "home \<Rightarrow> world \<Rightarrow> Subject list result \<times> world" where
  "subjects_queryFn h w =
     (case user h of
        None \<Rightarrow> (Returns [], w)
      | Some a \<Rightarrow>
          if uid a = [] then (Returns [], w) else fetchSubjectsForStudent (ById (uid a)) w)"

text \<open>Lines 284 to 304: the bookmarks query; \<open>enabled: !!user?.id\<close>.\<close>

definition bookmarks_enabled :: "home \<Rightarrow> bool" where
  "bookmarks_enabled h = has_user_id h"

definition fetchUserBookmarks ::
  "listing \<Rightarrow> string \<Rightarrow> world \<Rightarrow> Bookmark list result \<times> world" where
  "fetchUserBookmarks m = (case m of FirstListing \<Rightarrow> fetchUserBookmarks_a
                                    | SecondListing \<Rightarrow> fetchUserBookmarks_b)"

definition bookmarks_queryFn :: "home \<Rightarrow> world \<Rightarrow> Bookmark list result \<times> world" where
  "bookmarks_queryFn h w =
     (case user h of
        None \<Rightarrow> (Returns [], w)
      | Some a \<Rightarrow>
          if uid a = [] then (Returns [], w)
          else fetchUserBookmarks (bookmarks_module h) (uid a) w)"

text \<open>
  Lines 307 to 333: when a profile is loaded, no subject is and the subjects query is not
  fetching, the subjects are fetched with the profile and stored when there are any.
  Neither the flag nor \<open>enabled\<close> is consulted.
\<close>

definition subjects_direct_fetch :: "home \<Rightarrow> world \<Rightarrow> home \<times> world" where
  "subjects_direct_fetch h w =
     (case cache_userProfile h of
        None \<Rightarrow> (h, w)
      | Some userProfile \<Rightarrow>
          if cache_subjects h = [] \<and> subjects_run h = Idle then
            (case fetchSubjectsForStudent (ByProfile userProfile) w of
               (Hangs, w1) \<Rightarrow> (h, w1)
             | (Returns subjs, w1) \<Rightarrow>
                 if subjs \<noteq> [] then (h\<lparr>cache_subjects := subjs\<rparr>, w1) else (h, w1))
          else (h, w))"

text \<open>
  A run of a query in two parts, so that other events can fall between them. The first
  part is the run up to its first await: both \<open>queryFn\<close>s reach fetchStudentProfile, whose
  first request is the connection test. The second part is the rest of the run and the
  write of its result to the cache; once started, a run goes on whatever the flag and
  \<open>enabled\<close> have become. A run that waits for an answer that never comes writes nothing
  and stays fetching.
\<close>

definition query_starts :: "home \<Rightarrow> world \<Rightarrow> fetch_status \<times> world" where
  "query_starts h w =
     (if has_user_id h then
        (case testSupabaseConnection w of
           (Hangs, w1) \<Rightarrow> (Stuck, w1)
         | (Returns isConnected, w1) \<Rightarrow> (Fetching, w1))
      else (Idle, w))"

definition profile_query_goes_on :: "home \<Rightarrow> world \<Rightarrow> home \<times> world" where
  "profile_query_goes_on h w =
     (case user h of
        None \<Rightarrow> (h, w)
      | Some a \<Rightarrow>
          if profile_run h = Fetching then
            (case userProfile_after a (profile_loop (uid a) 0 w) of
               (Hangs, w1) \<Rightarrow> (h\<lparr>profile_run := Stuck\<rparr>, w1)
             | (Returns p, w1) \<Rightarrow> (h\<lparr>profile_run := Idle, cache_userProfile := p\<rparr>, w1))
          else (h, w))"

definition subjects_query_goes_on :: "home \<Rightarrow> world \<Rightarrow> home \<times> world" where
  "subjects_query_goes_on h w =
     (case user h of
        None \<Rightarrow> (h, w)
      | Some a \<Rightarrow>
          if subjects_run h = Fetching then
            (case subjects_after (profile_loop (uid a) 0 w) of
               (Hangs, w1) \<Rightarrow> (h\<lparr>subjects_run := Stuck\<rparr>, w1)
             | (Returns s, w1) \<Rightarrow> (h\<lparr>subjects_run := Idle, cache_subjects := s\<rparr>, w1))
          else (h, w))"

text \<open>
  Lines 336 to 356: when a user and a profile are there, no subject is and the subjects
  query is not fetching, \<open>subjectsQuery.refetch()\<close> starts a run of the subjects query;
  \<open>refetch\<close> looks at neither \<open>enabled\<close> nor the flag. The two-second timer that the effect
  sets next is cleared by the effect's cleanup as soon as the refetch turns \<open>isFetching\<close>, a
  dependency of the effect, to true; what its callback would do, invalidating the three
  queries, makes react-query run those that are enabled, which the events of the three
  queries below cover.
\<close>

definition subjects_refetch_effect :: "home \<Rightarrow> world \<Rightarrow> home \<times> world" where
  "subjects_refetch_effect h w =
     (if user h \<noteq> None \<and> cache_userProfile h \<noteq> None \<and> cache_subjects h = []
         \<and> subjects_run h = Idle then
        (let (started, w1) = query_starts h w in (h\<lparr>subjects_run := started\<rparr>, w1))
      else (h, w))"

text \<open>
  What can happen to the page: an effect runs, the timer fires, the browser reports a
  change of connectivity, react-query runs a query (on mount, on focus, on invalidation:
  only when the query is enabled) either in one go or in two parts, or the user clicks the
  reconnect button.
\<close>

datatype event =
    RetryAttemptEffect
  | ConnectionEffect bool
  | RetryTimer bool
  | BrowserOffline
  | BrowserOnline
  | ProfileQuery
  | SubjectsQuery
  | BookmarksQuery
  | SubjectsDirectFetch
  | ClickReconnect
  | ProfileQueryStarts
  | ProfileQueryGoesOn
  | SubjectsQueryStarts
  | SubjectsQueryGoesOn
  | SubjectsRefetchEffect

fun step :: "event \<Rightarrow> home \<times> world \<Rightarrow> home \<times> world" where
  "step RetryAttemptEffect (h, w) = (retryAttempt_effect h w, w)"
| "step (ConnectionEffect onLine) (h, w) = connection_effect onLine h w"
| "step (RetryTimer onLine) (h, w) = retry_timer_fired onLine h w"
| "step BrowserOffline (h, w) = (handleOffline h w, w)"
| "step BrowserOnline (h, w) = (handleOnline h w, w)"
| "step ProfileQuery (h, w) =
     (if userProfile_enabled h \<and> profile_run h = Idle then
        (case userProfile_queryFn h w of
           (Hangs, w1) \<Rightarrow> (h\<lparr>profile_run := Stuck\<rparr>, w1)
         | (Returns p, w1) \<Rightarrow> (h\<lparr>cache_userProfile := p\<rparr>, w1))
      else (h, w))"
| "step SubjectsQuery (h, w) =
     (if subjects_enabled h \<and> subjects_run h = Idle then
        (case subjects_queryFn h w of
           (Hangs, w1) \<Rightarrow> (h\<lparr>subjects_run := Stuck\<rparr>, w1)
         | (Returns s, w1) \<Rightarrow> (h\<lparr>cache_subjects := s\<rparr>, w1))
      else (h, w))"
| "step BookmarksQuery (h, w) =
     (if bookmarks_enabled h then
        (case bookmarks_queryFn h w of
           (Hangs, w1) \<Rightarrow> (h, w1)
         | (Returns b, w1) \<Rightarrow> (h\<lparr>cache_bookmarks := Some b\<rparr>, w1))
      else (h, w))"
| "step SubjectsDirectFetch (h, w) = subjects_direct_fetch h w"
| "step ClickReconnect (h, w) = (attemptReconnection h, w)"
| "step ProfileQueryStarts (h, w) =
     (if userProfile_enabled h \<and> profile_run h = Idle then
        (let (started, w1) = query_starts h w in (h\<lparr>profile_run := started\<rparr>, w1))
      else (h, w))"
| "step ProfileQueryGoesOn (h, w) = profile_query_goes_on h w"
| "step SubjectsQueryStarts (h, w) =
     (if subjects_enabled h \<and> subjects_run h = Idle then
        (let (started, w1) = query_starts h w in (h\<lparr>subjects_run := started\<rparr>, w1))
      else (h, w))"
| "step SubjectsQueryGoesOn (h, w) = subjects_query_goes_on h w"
| "step SubjectsRefetchEffect (h, w) = subjects_refetch_effect h w"

fun run :: "event list \<Rightarrow> home \<times> world \<Rightarrow> home \<times> world" where
  "run [] s = s"
| "run (e # es) s = run es (step e s)"

text \<open>
  The connectivity checks that have failed so far: the requests of testSupabaseConnection
  in the log that the service did not serve.
\<close>

definition failed_checks :: "world \<Rightarrow> nat" where
  "failed_checks w =
     length (filter (\<lambda>n. requests w ! n = CountStudents \<and> outcomes w n \<noteq> Served)
               [0..<length (requests w)])"

definition alice :: auth_user where
  "alice = \<lparr>uid = ''u1'', user_email = Some ''alice@example.com'', meta_full_name = None\<rparr>"

section \<open>Properties the claims speak of\<close>


text \<open>The dual-key lookup as the specification words it: either key matches the id.\<close>

definition some_key_matches :: "Bookmark list \<Rightarrow> string \<Rightarrow> bool" where
  "some_key_matches bs i = list_ex (\<lambda>b. note_id b = Some i \<or> subject_id b = Some i) bs"

text \<open>A service with empty tables, for the examples.\<close>

definition blank_student :: Student where
  "blank_student = \<lparr>student_id = [], full_name = [], email = [], academic_year = 0, semester = 0,
     branch = [], is_admin = False, student_created_at = []\<rparr>"

definition blank_world :: "(nat \<Rightarrow> outcome) \<Rightarrow> world" where
  "blank_world oc = \<lparr>bookmarks = [], students = [], subjects = [], student_defaults = blank_student,
     outcomes = oc, uuid = (\<lambda>n. ''row''), clock = (\<lambda>n. ''2025-04-19T00:00:00.000Z''),
     requests = [], sleeps = []\<rparr>"

text \<open>The service refuses its first request (a missing column, say) and serves the rest.\<close>

definition refuse_first :: "nat \<Rightarrow> outcome" where
  "refuse_first n = (if n = 0 then Refused ''column does not exist'' else Served)"

text \<open>A legacy row, stored under subject_id alone.\<close>

definition legacy_world :: world where
  "legacy_world = (blank_world refuse_first)\<lparr>bookmarks :=
     [\<lparr>bookmark_id = ''b1'', user_id = ''u1'', note_id = None, subject_id = Some ''s1'',
       bookmark_created_at = ''t''\<rparr>]\<rparr>"


text \<open>A request was sent again: the requests added to the log are not all different.\<close>

definition retried :: "world \<Rightarrow> world \<Rightarrow> bool" where
  "retried w w' = (\<not> distinct (drop (length (requests w)) (requests w')))"

definition serve_all :: "nat \<Rightarrow> outcome" where
  "serve_all n = Served"

definition refuse_all :: "nat \<Rightarrow> outcome" where
  "refuse_all n = Refused ''service unavailable''"

text \<open>The default profile of the home page: year 1, semester 1, branch CSE.\<close>

definition cse_patch :: StudentPatch where
  "cse_patch = \<lparr>p_id = Some ''u1'', p_full_name = Some ''New User'', p_email = Some [],
     p_academic_year = Some 1, p_semester = Some 1, p_branch = Some ''CSE'',
     p_is_admin = Some False, p_created_at = Some ''2025-04-19T00:00:00.000Z''\<rparr>"

definition cse_profile :: Student where
  "cse_profile = \<lparr>student_id = ''u1'', full_name = ''New User'', email = [],
     academic_year = 1, semester = 1, branch = ''CSE'', is_admin = False,
     student_created_at = ''2025-04-19T00:00:00.000Z''\<rparr>"

definition data_structures :: Subject where
  "data_structures = \<lparr>subj_id = ''s1'', subj_name = ''Data Structures'', subj_branch = ''CSE'',
     subj_academic_year = 1, subj_semester = 1, is_common = False, subj_created_at = ''t''\<rparr>"

definition circuits :: Subject where
  "circuits = \<lparr>subj_id = ''s2'', subj_name = ''Circuits'', subj_branch = ''ECE'',
     subj_academic_year = 1, subj_semester = 2, is_common = False, subj_created_at = ''t''\<rparr>"

definition cse_world :: world where
  "cse_world = (blank_world serve_all)\<lparr>subjects := [data_structures, circuits]\<rparr>"

text \<open>No subject of year 1, semester 1 is stored; one of year 1, semester 2, branch ECE is.\<close>

definition ece_world :: world where
  "ece_world = (blank_world serve_all)\<lparr>subjects := [circuits]\<rparr>"

text \<open>A stored bookmark of the user, and the page after the browser has gone offline.\<close>

definition saved_world :: world where
  "saved_world = (blank_world serve_all)\<lparr>bookmarks :=
     [\<lparr>bookmark_id = ''b1'', user_id = ''u1'', note_id = Some ''s1'', subject_id = None,
       bookmark_created_at = ''t''\<rparr>]\<rparr>"

definition offline_page :: "listing \<Rightarrow> home \<times> world" where
  "offline_page m = step BrowserOffline (initial_home (Some alice) m (Some 0), saved_world)"

text \<open>The page after a first connection test that the service refused.\<close>

definition waiting_page :: "home \<times> world" where
  "waiting_page =
     step (ConnectionEffect True) (initial_home (Some alice) SecondListing (Some 0),
                                   blank_world refuse_all)"

text \<open>What a call hands to its caller: the list it returns, nothing when it never returns.\<close>

definition returned :: "'a list result \<Rightarrow> 'a list" where
  "returned r = (case r of Returns xs \<Rightarrow> xs | Hangs \<Rightarrow> [])"

text \<open>The call returns and reports success.\<close>

definition succeeded :: "op_result result \<Rightarrow> bool" where
  "succeeded r = (case r of Returns res \<Rightarrow> success res | Hangs \<Rightarrow> False)"

text \<open>The n-th request is answered with an error object or rejects.\<close>

definition errored :: "world \<Rightarrow> nat \<Rightarrow> bool" where
  "errored w n =
     (case outcomes w n of
        Refused m \<Rightarrow> True | Rejected e m \<Rightarrow> True | Served \<Rightarrow> False | Unanswered \<Rightarrow> False)"

text \<open>
  The retry contract as the specification words it: attempt the operation; when the
  attempt fails, retry up to a fixed bound of attempts, waiting before each retry a delay
  that doubles with the attempt number (500 ms after the first attempt); on exhaustion
  return the default value. Attempts are numbered from 1. An attempt (\<open>operation\<close>) comes to
  \<open>Some v\<close> when it has the value \<open>v\<close>, to \<open>None\<close> when it fails, or it never returns.
\<close>

function retry_with_backoff ::
  "nat \<Rightarrow> (nat \<Rightarrow> world \<Rightarrow> 'a option result \<times> world) \<Rightarrow> 'a \<Rightarrow> nat \<Rightarrow> world
     \<Rightarrow> 'a result \<times> world" where
  "retry_with_backoff bound operation dflt attempt w =
     (if bound < attempt then (Returns dflt, w)
      else
        (case operation attempt w of
           (Hangs, w1) \<Rightarrow> (Hangs, w1)
         | (Returns (Some v), w1) \<Rightarrow> (Returns v, w1)
         | (Returns None, w1) \<Rightarrow>
             (if attempt = bound then (Returns dflt, w1)
              else retry_with_backoff bound operation dflt (Suc attempt)
                     (sleep (500 * 2 ^ (attempt - 1)) w1))))"
  by pat_completeness auto
termination
  by (relation "measure (\<lambda>(bound, operation, dflt, attempt, w). Suc bound - attempt)") auto

text \<open>The service never answers.\<close>

definition never_answer :: "nat \<Rightarrow> outcome" where
  "never_answer n = Unanswered"

text \<open>The service answers its first request and none after it.\<close>

definition answer_first_only :: "nat \<Rightarrow> outcome" where
  "answer_first_only n = (if n = 0 then Served else Unanswered)"

text \<open>The service refuses its second request and serves the rest.\<close>

definition refuse_second :: "nat \<Rightarrow> outcome" where
  "refuse_second n = (if n = 1 then Refused ''service unavailable'' else Served)"

text \<open>The service refuses its second and its fourth request and serves the rest.\<close>

definition refuse_second_and_fourth :: "nat \<Rightarrow> outcome" where
  "refuse_second_and_fourth n =
     (if n = 1 \<or> n = 3 then Refused ''service unavailable'' else Served)"

text \<open>A service that holds the profile of user u1 and two subjects.\<close>

definition campus :: "(nat \<Rightarrow> outcome) \<Rightarrow> world" where
  "campus oc = (blank_world oc)\<lparr>students := [cse_profile],
                                subjects := [data_structures, circuits]\<rparr>"

section \<open>Theorems\<close>

subsection \<open>Helper facts about the service primitives\<close>

lemmas prim_defs =
  insert_bookmark_def delete_bookmarks_def select_bookmarks_def count_students_def
  select_student_def select_subjects_def select_subjects_fallback_def upsert_student_def
  send_def failed_def Let_def

lemma truthy_and_equal_iff: "truthy_and_equal x i \<longleftrightarrow> i \<noteq> [] \<and> x = Some i"
  by (cases x) (auto simp: truthy_and_equal_def)









lemma errored_iff:
  "errored w n \<longleftrightarrow> outcomes w n \<noteq> Served \<and> outcomes w n \<noteq> Unanswered"
  by (cases "outcomes w n") (simp_all add: errored_def)

lemma add_b_requests:
  assumes "userId \<noteq> []" "itemId \<noteq> []"
  shows "requests (snd (addBookmark_b userId itemId w)) =
     requests w @ InsertBookmark userId (Some itemId) None #
       (if errored w (length (requests w)) then [InsertBookmark userId None (Some itemId)]
        else [])"
  using assms
  by (cases "outcomes w (length (requests w))"; cases "outcomes w (Suc (length (requests w)))";
      simp add: addBookmark_b_def prim_defs errored_def)

lemma add_b_success:
  assumes "userId \<noteq> []" "itemId \<noteq> []"
  shows "succeeded (fst (addBookmark_b userId itemId w)) =
     (outcomes w (length (requests w)) = Served
      \<or> (errored w (length (requests w))
          \<and> outcomes w (Suc (length (requests w))) = Served))"
  using assms
  by (cases "outcomes w (length (requests w))"; cases "outcomes w (Suc (length (requests w)))";
      simp add: addBookmark_b_def prim_defs errored_def succeeded_def)

lemma remove_requests:
  assumes "userId \<noteq> []" "itemId \<noteq> []"
  shows "requests (snd (removeBookmark userId itemId w)) =
     requests w @ DeleteBookmarks userId (ByNote itemId) #
       (if errored w (length (requests w)) then [DeleteBookmarks userId (BySubject itemId)]
        else [])"
  using assms
  by (cases "outcomes w (length (requests w))"; cases "outcomes w (Suc (length (requests w)))";
      simp add: removeBookmark_def prim_defs errored_def)

lemma remove_success:
  assumes "userId \<noteq> []" "itemId \<noteq> []"
  shows "succeeded (fst (removeBookmark userId itemId w)) =
     (outcomes w (length (requests w)) = Served
      \<or> (errored w (length (requests w))
          \<and> outcomes w (Suc (length (requests w))) = Served))"
  using assms
  by (cases "outcomes w (length (requests w))"; cases "outcomes w (Suc (length (requests w)))";
      simp add: removeBookmark_def prim_defs errored_def succeeded_def)

lemma fetch_b_result:
  assumes "userId \<noteq> []"
  shows "fst (fetchUserBookmarks_b userId w) =
     (if outcomes w (length (requests w)) = Unanswered
         \<or> outcomes w (Suc (length (requests w))) = Unanswered then Hangs
      else if outcomes w (length (requests w)) = Served
         \<and> filter (\<lambda>b. user_id b = userId) (bookmarks w) \<noteq> [] then
        Returns (map (\<lambda>b. b\<lparr>subject_id := None\<rparr>)
                   (filter (\<lambda>b. user_id b = userId) (bookmarks w)))
      else if outcomes w (Suc (length (requests w))) = Served
         \<and> filter (\<lambda>b. user_id b = userId) (bookmarks w) \<noteq> [] then
        Returns (map (\<lambda>b. b\<lparr>note_id := subject_id b\<rparr>)
                   (filter (\<lambda>b. user_id b = userId) (bookmarks w)))
      else Returns [])"
  using assms
  by (cases "outcomes w (length (requests w))"; cases "outcomes w (Suc (length (requests w)))";
      simp add: fetchUserBookmarks_b_def prim_defs fulfilled_ok_def rows_of_def project_def
        comp_def)

lemma fetch_b_requests:
  assumes "userId \<noteq> []"
  shows "requests (snd (fetchUserBookmarks_b userId w)) =
     requests w @ [SelectBookmarks [''id'', ''user_id'', ''note_id'', ''created_at''] userId,
                   SelectBookmarks [''id'', ''user_id'', ''subject_id'', ''created_at''] userId]"
  using assms
  by (cases "outcomes w (length (requests w))"; cases "outcomes w (Suc (length (requests w)))";
      simp add: fetchUserBookmarks_b_def prim_defs)

subsection \<open>Dual-key lookup\<close>

text \<open>
  Claim C2, as the code has it. The second listing's isBookmarked returns true if and only
  if some bookmark of the list has note_id equal to the id or subject_id equal to the id.
  The first listing's isBookmarked guards each comparison with the key's truthiness, so it
  returns true if and only if the id is not the empty string and some bookmark has note_id
  or subject_id equal to it.
\<close>

theorem isBookmarked_dual_key:
  "(isBookmarked_b bs i \<longleftrightarrow> (\<exists>b\<in>set bs. note_id b = Some i \<or> subject_id b = Some i))
   \<and> (isBookmarked_a bs i \<longleftrightarrow>
        i \<noteq> [] \<and> (\<exists>b\<in>set bs. note_id b = Some i \<or> subject_id b = Some i))"
  by (auto simp: isBookmarked_b_def isBookmarked_a_def list_ex_iff truthy_and_equal_iff)

theorem isBookmarked_dual_key_witness:
  "isBookmarked_b [\<lparr>bookmark_id = ''b1'', user_id = ''u1'', note_id = None,
                     subject_id = Some ''s1'', bookmark_created_at = ''t''\<rparr>] ''s1''
   \<and> isBookmarked_a [\<lparr>bookmark_id = ''b1'', user_id = ''u1'', note_id = None,
                       subject_id = Some ''s1'', bookmark_created_at = ''t''\<rparr>] ''s1''
   \<and> \<not> isBookmarked_b [\<lparr>bookmark_id = ''b1'', user_id = ''u1'', note_id = None,
                         subject_id = Some ''s1'', bookmark_created_at = ''t''\<rparr>] ''s2''"
  using isBookmarked_dual_key
          [of "[\<lparr>bookmark_id = ''b1'', user_id = ''u1'', note_id = None,
                  subject_id = Some ''s1'', bookmark_created_at = ''t''\<rparr>]" "''s1''"]
        isBookmarked_dual_key
          [of "[\<lparr>bookmark_id = ''b1'', user_id = ''u1'', note_id = None,
                  subject_id = Some ''s1'', bookmark_created_at = ''t''\<rparr>]" "''s2''"]
  by simp

text \<open>
  Claim C2 as stated fails on the first listing at the empty id: a bookmark whose
  subject_id is the empty string has a key equal to the id, and isBookmarked returns false.
\<close>

theorem isBookmarked_empty_id_counterexample:
  "isBookmarked_a [\<lparr>bookmark_id = ''b1'', user_id = ''u1'', note_id = None,
                     subject_id = Some [], bookmark_created_at = ''t''\<rparr>] []
   \<noteq> some_key_matches [\<lparr>bookmark_id = ''b1'', user_id = ''u1'', note_id = None,
                          subject_id = Some [], bookmark_created_at = ''t''\<rparr>] []"
  by (simp add: isBookmarked_a_def some_key_matches_def truthy_and_equal_def)

subsection \<open>Missing ids\<close>

text \<open>
  Claim C10. When userId or itemId is empty, addBookmark (both listings) and removeBookmark
  return success = false with the message 'Missing user ID or item ID', and the service is
  left as it was: no request is sent, no table changes.
\<close>

theorem missing_id_no_backend_operation:
  "userId = [] \<or> itemId = [] \<Longrightarrow>
     addBookmark_a userId itemId w =
       (Returns \<lparr>success = False, message = ''Missing user ID or item ID''\<rparr>, w)
   \<and> addBookmark_b userId itemId w =
       (Returns \<lparr>success = False, message = ''Missing user ID or item ID''\<rparr>, w)
   \<and> removeBookmark userId itemId w =
       (Returns \<lparr>success = False, message = ''Missing user ID or item ID''\<rparr>, w)"
  by (auto simp: addBookmark_a_def addBookmark_b_def removeBookmark_def)

theorem missing_id_no_backend_operation_witness:
  "addBookmark_a [] ''s1'' (blank_world (\<lambda>n. Served))
     = (Returns \<lparr>success = False, message = ''Missing user ID or item ID''\<rparr>,
        blank_world (\<lambda>n. Served))
   \<and> addBookmark_b ''u1'' [] (blank_world (\<lambda>n. Served))
     = (Returns \<lparr>success = False, message = ''Missing user ID or item ID''\<rparr>,
        blank_world (\<lambda>n. Served))
   \<and> removeBookmark [] [] (blank_world (\<lambda>n. Served))
     = (Returns \<lparr>success = False, message = ''Missing user ID or item ID''\<rparr>,
        blank_world (\<lambda>n. Served))"
  using missing_id_no_backend_operation [of "[]" "''s1''" "blank_world (\<lambda>n. Served)"]
        missing_id_no_backend_operation [of "''u1''" "[]" "blank_world (\<lambda>n. Served)"]
        missing_id_no_backend_operation [of "[]" "[]" "blank_world (\<lambda>n. Served)"]
  by simp

subsection \<open>Dual-key mutations and lookups\<close>

text \<open>
  Claim C8, as the code has it. With a user id and an item id, addBookmark (second
  listing) and removeBookmark send the write with the note_id key first; the write with
  the subject_id key is sent if and only if the first came back with an error object or
  rejected; the call reports success if and only if one of the writes that were sent was
  served. fetchUserBookmarks sends the note_id probe and the subject_id probe. When the
  note_id probe is served and finds rows of the user, the call returns them as that probe
  selected them: note_id as it is stored, subject_id not selected. Otherwise, when the
  subject_id probe is served and finds rows, the call returns them with note_id set to
  their subject_id. Otherwise it returns the empty list. It returns once both probes have
  been answered.
\<close>

theorem mutations_probe_note_id_then_subject_id:
  assumes "userId \<noteq> []" and "itemId \<noteq> []"
  shows "requests (snd (addBookmark_b userId itemId w)) =
           requests w @ InsertBookmark userId (Some itemId) None #
             (if errored w (length (requests w))
              then [InsertBookmark userId None (Some itemId)] else [])
       \<and> succeeded (fst (addBookmark_b userId itemId w)) =
           (outcomes w (length (requests w)) = Served
            \<or> (errored w (length (requests w))
                \<and> outcomes w (Suc (length (requests w))) = Served))
       \<and> requests (snd (removeBookmark userId itemId w)) =
           requests w @ DeleteBookmarks userId (ByNote itemId) #
             (if errored w (length (requests w))
              then [DeleteBookmarks userId (BySubject itemId)] else [])
       \<and> succeeded (fst (removeBookmark userId itemId w)) =
           (outcomes w (length (requests w)) = Served
            \<or> (errored w (length (requests w))
                \<and> outcomes w (Suc (length (requests w))) = Served))
       \<and> requests (snd (fetchUserBookmarks_b userId w)) =
           requests w @
             [SelectBookmarks [''id'', ''user_id'', ''note_id'', ''created_at''] userId,
              SelectBookmarks [''id'', ''user_id'', ''subject_id'', ''created_at''] userId]
       \<and> fst (fetchUserBookmarks_b userId w) =
           (if outcomes w (length (requests w)) = Unanswered
               \<or> outcomes w (Suc (length (requests w))) = Unanswered then Hangs
            else if outcomes w (length (requests w)) = Served
               \<and> filter (\<lambda>b. user_id b = userId) (bookmarks w) \<noteq> [] then
              Returns (map (\<lambda>b. b\<lparr>subject_id := None\<rparr>)
                         (filter (\<lambda>b. user_id b = userId) (bookmarks w)))
            else if outcomes w (Suc (length (requests w))) = Served
               \<and> filter (\<lambda>b. user_id b = userId) (bookmarks w) \<noteq> [] then
              Returns (map (\<lambda>b. b\<lparr>note_id := subject_id b\<rparr>)
                         (filter (\<lambda>b. user_id b = userId) (bookmarks w)))
            else Returns [])"
  using add_b_requests[OF assms] add_b_success[OF assms] remove_requests[OF assms]
    remove_success[OF assms] fetch_b_requests[OF assms(1), of w] fetch_b_result[OF assms(1), of w]
  by simp

text \<open>
  Examples. The service refuses the first request and serves the second: the bookmark
  is added under subject_id, success is reported, and a lookup whose note_id probe is
  refused returns the record with note_id set. The service serves every request: the
  lookup returns the rows of the note_id probe.
\<close>

theorem mutations_probe_note_id_then_subject_id_witness:
  "requests (snd (addBookmark_b ''u1'' ''s2'' legacy_world)) =
     [InsertBookmark ''u1'' (Some ''s2'') None, InsertBookmark ''u1'' None (Some ''s2'')]
   \<and> succeeded (fst (addBookmark_b ''u1'' ''s2'' legacy_world))
   \<and> requests (snd (removeBookmark ''u1'' ''s1'' legacy_world)) =
     [DeleteBookmarks ''u1'' (ByNote ''s1''), DeleteBookmarks ''u1'' (BySubject ''s1'')]
   \<and> succeeded (fst (removeBookmark ''u1'' ''s1'' legacy_world))
   \<and> fst (fetchUserBookmarks_b ''u1'' legacy_world) =
     Returns [\<lparr>bookmark_id = ''b1'', user_id = ''u1'', note_id = Some ''s1'',
               subject_id = Some ''s1'', bookmark_created_at = ''t''\<rparr>]
   \<and> fst (fetchUserBookmarks_b ''u1'' saved_world) =
     Returns [\<lparr>bookmark_id = ''b1'', user_id = ''u1'', note_id = Some ''s1'',
               subject_id = None, bookmark_created_at = ''t''\<rparr>]"
proof -
  have ids: "''u1'' \<noteq> []" "''s1'' \<noteq> []" "''s2'' \<noteq> []"
    by simp_all
  show ?thesis
    using mutations_probe_note_id_then_subject_id [OF ids(1) ids(3), of legacy_world]
          mutations_probe_note_id_then_subject_id [OF ids(1) ids(2), of legacy_world]
          mutations_probe_note_id_then_subject_id [OF ids(1) ids(2), of saved_world]
    by (simp add: legacy_world_def saved_world_def blank_world_def refuse_first_def
          serve_all_def errored_def)
qed

text \<open>
  Claim C8 as stated fails in its lookup half. The service refuses the first request and
  serves the rest: addBookmark stores the bookmark under subject_id; the lookup that
  follows has both probes served, returns the rows of the note_id probe, and the record
  comes back with no note_id (and no subject_id, which that probe does not select), so
  that isBookmarked does not find the item in the list.
\<close>

theorem lookup_not_normalised_counterexample:
  "bookmarks (snd (addBookmark_b ''u1'' ''s1'' (blank_world refuse_first))) =
     [\<lparr>bookmark_id = ''row'', user_id = ''u1'', note_id = None, subject_id = Some ''s1'',
       bookmark_created_at = ''2025-04-19T00:00:00.000Z''\<rparr>]
   \<and> fst (fetchUserBookmarks_b ''u1''
            (snd (addBookmark_b ''u1'' ''s1'' (blank_world refuse_first)))) =
     Returns [\<lparr>bookmark_id = ''row'', user_id = ''u1'', note_id = None, subject_id = None,
               bookmark_created_at = ''2025-04-19T00:00:00.000Z''\<rparr>]
   \<and> \<not> isBookmarked_b
         (returned (fst (fetchUserBookmarks_b ''u1''
            (snd (addBookmark_b ''u1'' ''s1'' (blank_world refuse_first)))))) ''s1''"
  by (simp add: addBookmark_b_def fetchUserBookmarks_b_def prim_defs blank_world_def
        refuse_first_def now_def fulfilled_ok_def rows_of_def project_def returned_def
        isBookmarked_b_def)

subsection \<open>Records created by the first listing\<close>

lemma toggle_a_insert:
  "bookmarks (snd (toggleBookmark_a userId i False w)) =
     bookmarks w @
       (if outcomes w (length (requests w)) = Served
        then [\<lparr>bookmark_id = uuid w (length (requests w)), user_id = userId,
                note_id = Some i, subject_id = Some i, bookmark_created_at = now w\<rparr>]
        else [])"
  by (cases "outcomes w (length (requests w))")
     (simp_all add: toggleBookmark_a_def prim_defs)

lemma add_a_insert:
  "bookmarks (snd (addBookmark_a userId i w)) =
     bookmarks w @
       (if userId \<noteq> [] \<and> i \<noteq> [] \<and> outcomes w (length (requests w)) = Served
        then [\<lparr>bookmark_id = uuid w (length (requests w)), user_id = userId,
                note_id = Some i, subject_id = Some i, bookmark_created_at = now w\<rparr>]
        else [])"
  by (cases "outcomes w (length (requests w))")
     (simp_all add: addBookmark_a_def prim_defs)

lemma toggle_a_delete:
  "set (bookmarks (snd (toggleBookmark_a userId i True w))) \<subseteq> set (bookmarks w)"
  by (cases "outcomes w (length (requests w))")
     (simp_all add: toggleBookmark_a_def prim_defs)

text \<open>
  Claim C9. The record that toggleBookmark (not currently bookmarked) and addBookmark of
  the first listing create has both keys populated with the item id: note_id = subject_id =
  the given id. Exactly that one record is created when the service serves the insert, none
  otherwise, and toggleBookmark on a bookmarked item creates no record.
\<close>

theorem created_record_has_both_keys:
  "bookmarks (snd (toggleBookmark_a userId i False w)) =
     bookmarks w @
       (if outcomes w (length (requests w)) = Served
        then [\<lparr>bookmark_id = uuid w (length (requests w)), user_id = userId,
                note_id = Some i, subject_id = Some i, bookmark_created_at = now w\<rparr>]
        else [])
   \<and> bookmarks (snd (addBookmark_a userId i w)) =
     bookmarks w @
       (if userId \<noteq> [] \<and> i \<noteq> [] \<and> outcomes w (length (requests w)) = Served
        then [\<lparr>bookmark_id = uuid w (length (requests w)), user_id = userId,
                note_id = Some i, subject_id = Some i, bookmark_created_at = now w\<rparr>]
        else [])
   \<and> set (bookmarks (snd (toggleBookmark_a userId i True w))) \<subseteq> set (bookmarks w)"
  using toggle_a_insert[of userId i w] add_a_insert[of userId i w] toggle_a_delete[of userId i w]
  by simp

theorem created_record_has_both_keys_witness:
  "bookmarks (snd (toggleBookmark_a ''u1'' ''s1'' False (blank_world (\<lambda>n. Served)))) =
     [\<lparr>bookmark_id = ''row'', user_id = ''u1'', note_id = Some ''s1'', subject_id = Some ''s1'',
       bookmark_created_at = ''2025-04-19T00:00:00.000Z''\<rparr>]
   \<and> bookmarks (snd (addBookmark_a ''u1'' ''s1'' (blank_world (\<lambda>n. Served)))) =
     [\<lparr>bookmark_id = ''row'', user_id = ''u1'', note_id = Some ''s1'', subject_id = Some ''s1'',
       bookmark_created_at = ''2025-04-19T00:00:00.000Z''\<rparr>]"
  using created_record_has_both_keys [of "''u1''" "''s1''" "blank_world (\<lambda>n. Served)"]
  by (simp add: blank_world_def now_def)

subsection \<open>Toggling twice\<close>




subsection \<open>Helper facts about the retry loops\<close>

declare profile_loop.simps [simp del] subjects_loop.simps [simp del]
  retry_with_backoff.simps [simp del]

lemma sleep_simps:
  "requests (sleep ms w) = requests w" "outcomes (sleep ms w) = outcomes w"
  "subjects (sleep ms w) = subjects w" "students (sleep ms w) = students w"
  "sleeps (sleep ms w) = sleeps w @ [ms]"
  by (simp_all add: sleep_def)

lemma find_filter:
  "find P xs = (case filter P xs of [] \<Rightarrow> None | x # rest \<Rightarrow> Some x)"
  by (induction xs) simp_all

lemma test_connection_eq:
  "testSupabaseConnection w =
     (if outcomes w (length (requests w)) = Unanswered then Hangs
      else Returns (outcomes w (length (requests w)) = Served),
      w\<lparr>requests := requests w @ [CountStudents]\<rparr>)"
  by (cases "outcomes w (length (requests w))")
     (simp_all add: testSupabaseConnection_def prim_defs)

lemma profile_attempt_snd:
  "snd (profile_attempt u w) = w\<lparr>requests := requests w @ [SelectStudent u]\<rparr>"
  by (cases "outcomes w (length (requests w))")
     (simp_all add: profile_attempt_def prim_defs split: list.splits option.splits)

lemma profile_attempt_fail:
  "outcomes w (length (requests w)) \<noteq> Served \<Longrightarrow> fst (profile_attempt u w) = Returns None"
  by (cases "outcomes w (length (requests w))")
     (simp_all add: profile_attempt_def prim_defs)

lemma profile_attempt_served:
  assumes "outcomes w (length (requests w)) = Served"
    and "length (filter (\<lambda>r. student_id r = u) (students w)) \<le> 1"
  shows "fst (profile_attempt u w) = Returns (Some (find (\<lambda>r. student_id r = u) (students w)))"
  using assms
  by (auto simp add: profile_attempt_def prim_defs find_filter split: list.splits option.splits)

lemma profile_attempt_returns: "fst (profile_attempt u w) \<noteq> Hangs"
  by (cases "outcomes w (length (requests w))")
     (simp_all add: profile_attempt_def prim_defs split: list.splits option.splits)

lemma profile_attempt_found:
  "fst (profile_attempt u w) = Returns (Some (Some p)) \<Longrightarrow>
     filter (\<lambda>r. student_id r = u) (students w) = [p]"
  by (cases "outcomes w (length (requests w))")
     (auto simp add: profile_attempt_def prim_defs split: list.splits option.splits)

lemma profile_loop_unfold:
  "profile_loop u a w =
     (if a < 3 then
        (case fst (profile_attempt u w) of
           Hangs \<Rightarrow> (Hangs, snd (profile_attempt u w))
         | Returns None \<Rightarrow>
             if a = 2 then (Returns None, snd (profile_attempt u w))
             else profile_loop u (Suc a) (sleep (500 * 2 ^ a) (snd (profile_attempt u w)))
         | Returns (Some v) \<Rightarrow> (Returns v, snd (profile_attempt u w)))
      else (Returns None, w))"
  by (subst profile_loop.simps)
     (simp add: split_def split: result.splits option.splits)

lemma subjects_loop_unfold:
  "subjects_loop y s b a w =
     (if a < 3 then
        (case fst (subjects_attempt y s b (Suc a) w) of
           Hangs \<Rightarrow> (Hangs, snd (subjects_attempt y s b (Suc a) w))
         | Returns None \<Rightarrow>
             if a = 2 then (Returns [], snd (subjects_attempt y s b (Suc a) w))
             else subjects_loop y s b (Suc a)
                    (sleep (500 * Suc a) (snd (subjects_attempt y s b (Suc a) w)))
         | Returns (Some v) \<Rightarrow> (Returns v, snd (subjects_attempt y s b (Suc a) w)))
      else (Returns [], w))"
  by (subst subjects_loop.simps)
     (simp add: split_def split: result.splits option.splits)

lemma retry_unfold:
  "retry_with_backoff bound operation dflt a w =
     (if bound < a then (Returns dflt, w)
      else
        (case fst (operation a w) of
           Hangs \<Rightarrow> (Hangs, snd (operation a w))
         | Returns None \<Rightarrow>
             if a = bound then (Returns dflt, snd (operation a w))
             else retry_with_backoff bound operation dflt (Suc a)
                    (sleep (500 * 2 ^ (a - 1)) (snd (operation a w)))
         | Returns (Some v) \<Rightarrow> (Returns v, snd (operation a w))))"
  by (subst retry_with_backoff.simps)
     (simp add: split_def split: result.splits option.splits)

lemma profile_loop_is_retry:
  "profile_loop u a w = retry_with_backoff 3 (\<lambda>attempt. profile_attempt u) None (Suc a) w"
proof (induction "3 - a" arbitrary: a w)
  case 0
  then show ?case
    by (subst profile_loop_unfold, subst retry_unfold) simp
next
  case (Suc n)
  then have "n = 3 - Suc a" "a < 3"
    by simp_all
  from Suc.hyps(1)[OF this(1)] \<open>a < 3\<close> show ?case
    by (subst profile_loop_unfold, subst retry_unfold)
       (auto split: result.splits option.splits)
qed

lemma subjects_delay: "a < 2 \<Longrightarrow> 500 * Suc a = 500 * 2 ^ a"
proof -
  assume "a < 2"
  then consider "a = 0" | "a = 1"
    by linarith
  then show ?thesis
    by cases simp_all
qed

lemma subjects_loop_is_retry:
  "subjects_loop y s b a w = retry_with_backoff 3 (subjects_attempt y s b) [] (Suc a) w"
proof (induction "3 - a" arbitrary: a w)
  case 0
  then show ?case
    by (subst subjects_loop_unfold, subst retry_unfold) simp
next
  case (Suc n)
  then have "n = 3 - Suc a" "a < 3"
    by simp_all
  from Suc.hyps(1)[OF this(1)] \<open>a < 3\<close> subjects_delay[of a] show ?case
    by (subst subjects_loop_unfold, subst retry_unfold)
       (auto split: result.splits option.splits)
qed

lemma profile_loop_served:
  assumes "k < 3"
    and "\<forall>j<k. outcomes w (length (requests w) + j) \<noteq> Served"
    and "outcomes w (length (requests w) + k) = Served"
    and "length (filter (\<lambda>r. student_id r = u) (students w)) \<le> 1"
  shows "profile_loop u 0 w =
     (Returns (find (\<lambda>r. student_id r = u) (students w)),
      w\<lparr>requests := requests w @ replicate (Suc k) (SelectStudent u),
        sleeps := sleeps w @ take k [500, 1000]\<rparr>)"
proof -
  from \<open>k < 3\<close> consider "k = 0" | "k = Suc 0" | "k = Suc (Suc 0)"
    by linarith
  then show ?thesis
  proof cases
    case 1
    then show ?thesis
      using assms(3,4)
      by (simp add: profile_loop_unfold[of u 0] profile_attempt_snd profile_attempt_served)
  next
    case 2
    then have "outcomes w (length (requests w)) \<noteq> Served"
      "outcomes w (Suc (length (requests w))) = Served"
      using assms(2,3) by simp_all
    then show ?thesis
      using 2 assms(4)
      by (simp add: profile_loop_unfold[of u 0] profile_loop_unfold[of u "Suc 0"]
            profile_attempt_snd profile_attempt_served profile_attempt_fail sleep_def)
  next
    case 3
    then have "outcomes w (length (requests w)) \<noteq> Served"
      "outcomes w (Suc (length (requests w))) \<noteq> Served"
      "outcomes w (Suc (Suc (length (requests w)))) = Served"
      using assms(2)[rule_format, of 0] assms(2)[rule_format, of 1] assms(3) by simp_all
    then show ?thesis
      using 3 assms(4)
      by (simp add: profile_loop_unfold[of u 0] profile_loop_unfold[of u "Suc 0"]
            profile_loop_unfold[of u "Suc (Suc 0)"]
            profile_attempt_snd profile_attempt_served profile_attempt_fail sleep_def)
  qed
qed

lemma profile_loop_exhausted:
  assumes "\<forall>j<3. outcomes w (length (requests w) + j) \<noteq> Served"
  shows "profile_loop u 0 w =
     (Returns None,
      w\<lparr>requests := requests w @ replicate 3 (SelectStudent u),
        sleeps := sleeps w @ [500, 1000]\<rparr>)"
proof -
  have "outcomes w (length (requests w)) \<noteq> Served"
    "outcomes w (Suc (length (requests w))) \<noteq> Served"
    "outcomes w (Suc (Suc (length (requests w)))) \<noteq> Served"
    using assms[rule_format, of 0] assms[rule_format, of 1] assms[rule_format, of 2]
    by simp_all
  then show ?thesis
    by (simp add: profile_loop_unfold[of u 0] profile_loop_unfold[of u "Suc 0"]
          profile_loop_unfold[of u "Suc (Suc 0)"] numeral_3_eq_3
          profile_attempt_snd profile_attempt_fail sleep_def)
qed

lemma subjects_attempt_errored:
  "errored w (length (requests w)) \<Longrightarrow>
     subjects_attempt y s b a w =
       (Returns None, w\<lparr>requests := requests w @ [SelectSubjects y s b]\<rparr>)"
  by (cases "outcomes w (length (requests w))")
     (simp_all add: subjects_attempt_def prim_defs errored_def)

lemma subjects_attempt_unanswered:
  "outcomes w (length (requests w)) = Unanswered \<Longrightarrow>
     subjects_attempt y s b a w = (Hangs, w\<lparr>requests := requests w @ [SelectSubjects y s b]\<rparr>)"
  by (simp add: subjects_attempt_def prim_defs)

lemma subjects_attempt_served:
  assumes "outcomes w (length (requests w)) = Served"
    and "filter (\<lambda>x. subj_academic_year x = y \<and> subj_semester x = s
                       \<and> (subj_branch x = b \<or> is_common x)) (subjects w) \<noteq> []"
  shows "subjects_attempt y s b a w =
     (Returns (Some (filter (\<lambda>x. subj_academic_year x = y \<and> subj_semester x = s
                                  \<and> (subj_branch x = b \<or> is_common x)) (subjects w))),
      w\<lparr>requests := requests w @ [SelectSubjects y s b]\<rparr>)"
  using assms by (simp add: subjects_attempt_def prim_defs)

lemma subjects_loop_served:
  assumes "k < 3"
    and "\<forall>j<k. errored w (length (requests w) + j)"
    and "outcomes w (length (requests w) + k) = Served"
    and "filter (\<lambda>x. subj_academic_year x = y \<and> subj_semester x = s
                       \<and> (subj_branch x = b \<or> is_common x)) (subjects w) \<noteq> []"
  shows "subjects_loop y s b 0 w =
     (Returns (filter (\<lambda>x. subj_academic_year x = y \<and> subj_semester x = s
                            \<and> (subj_branch x = b \<or> is_common x)) (subjects w)),
      w\<lparr>requests := requests w @ replicate (Suc k) (SelectSubjects y s b),
        sleeps := sleeps w @ take k [500, 1000]\<rparr>)"
proof -
  from \<open>k < 3\<close> consider "k = 0" | "k = Suc 0" | "k = Suc (Suc 0)"
    by linarith
  then show ?thesis
  proof cases
    case 1
    then show ?thesis
      using assms(3,4)
      by (simp add: subjects_loop_unfold[of y s b 0] subjects_attempt_served)
  next
    case 2
    then have "errored w (length (requests w))"
      "outcomes w (Suc (length (requests w))) = Served"
      using assms(2,3) by simp_all
    then show ?thesis
      using 2 assms(4)
      by (simp add: subjects_loop_unfold[of y s b 0] subjects_loop_unfold[of y s b "Suc 0"]
            subjects_attempt_served subjects_attempt_errored sleep_def)
  next
    case 3
    then have "errored w (length (requests w))"
      "errored w (Suc (length (requests w)))"
      "outcomes w (Suc (Suc (length (requests w)))) = Served"
      using assms(2)[rule_format, of 0] assms(2)[rule_format, of 1] assms(3) by simp_all
    then show ?thesis
      using 3 assms(4)
      by (simp add: subjects_loop_unfold[of y s b 0] subjects_loop_unfold[of y s b "Suc 0"]
            subjects_loop_unfold[of y s b "Suc (Suc 0)"]
            subjects_attempt_served subjects_attempt_errored sleep_def errored_def)
  qed
qed

lemma subjects_loop_exhausted:
  assumes "\<forall>j<3. errored w (length (requests w) + j)"
  shows "subjects_loop y s b 0 w =
     (Returns [],
      w\<lparr>requests := requests w @ replicate 3 (SelectSubjects y s b),
        sleeps := sleeps w @ [500, 1000]\<rparr>)"
proof -
  have "errored w (length (requests w))"
    "errored w (Suc (length (requests w)))"
    "errored w (Suc (Suc (length (requests w))))"
    using assms[rule_format, of 0] assms[rule_format, of 1] assms[rule_format, of 2]
    by simp_all
  then show ?thesis
    by (simp add: subjects_loop_unfold[of y s b 0] subjects_loop_unfold[of y s b "Suc 0"]
          subjects_loop_unfold[of y s b "Suc (Suc 0)"] numeral_3_eq_3
          subjects_attempt_errored sleep_def errored_def)
qed

lemma subjects_loop_unanswered:
  assumes "k < 3"
    and "\<forall>j<k. errored w (length (requests w) + j)"
    and "outcomes w (length (requests w) + k) = Unanswered"
  shows "subjects_loop y s b 0 w =
     (Hangs,
      w\<lparr>requests := requests w @ replicate (Suc k) (SelectSubjects y s b),
        sleeps := sleeps w @ take k [500, 1000]\<rparr>)"
proof -
  from \<open>k < 3\<close> consider "k = 0" | "k = Suc 0" | "k = Suc (Suc 0)"
    by linarith
  then show ?thesis
  proof cases
    case 1
    then show ?thesis
      using assms(3)
      by (simp add: subjects_loop_unfold[of y s b 0] subjects_attempt_unanswered)
  next
    case 2
    then have "errored w (length (requests w))"
      "outcomes w (Suc (length (requests w))) = Unanswered"
      using assms(2,3) by simp_all
    then show ?thesis
      using 2
      by (simp add: subjects_loop_unfold[of y s b 0] subjects_loop_unfold[of y s b "Suc 0"]
            subjects_attempt_unanswered subjects_attempt_errored sleep_def)
  next
    case 3
    then have "errored w (length (requests w))"
      "errored w (Suc (length (requests w)))"
      "outcomes w (Suc (Suc (length (requests w)))) = Unanswered"
      using assms(2)[rule_format, of 0] assms(2)[rule_format, of 1] assms(3) by simp_all
    then show ?thesis
      using 3
      by (simp add: subjects_loop_unfold[of y s b 0] subjects_loop_unfold[of y s b "Suc 0"]
            subjects_loop_unfold[of y s b "Suc (Suc 0)"]
            subjects_attempt_unanswered subjects_attempt_errored sleep_def errored_def)
  qed
qed

lemma fetchStudentProfile_eq:
  "userId \<noteq> [] \<Longrightarrow>
     fetchStudentProfile userId w =
       (if outcomes w (length (requests w)) = Unanswered
        then (Hangs, w\<lparr>requests := requests w @ [CountStudents]\<rparr>)
        else profile_loop userId 0 (w\<lparr>requests := requests w @ [CountStudents]\<rparr>))"
  by (simp add: fetchStudentProfile_def test_connection_eq)

lemma fetchStudentProfile_served:
  assumes "userId \<noteq> []" and "outcomes w (length (requests w)) \<noteq> Unanswered" and "k < 3"
    and "\<forall>j<k. outcomes w (Suc (length (requests w)) + j) \<noteq> Served"
    and "outcomes w (Suc (length (requests w)) + k) = Served"
    and "length (filter (\<lambda>r. student_id r = userId) (students w)) \<le> 1"
  shows "fetchStudentProfile userId w =
     (Returns (find (\<lambda>r. student_id r = userId) (students w)),
      w\<lparr>requests := requests w @ CountStudents # replicate (Suc k) (SelectStudent userId),
        sleeps := sleeps w @ take k [500, 1000]\<rparr>)"
proof -
  let ?w1 = "w\<lparr>requests := requests w @ [CountStudents]\<rparr>"
  have "profile_loop userId 0 ?w1 =
     (Returns (find (\<lambda>r. student_id r = userId) (students ?w1)),
      ?w1\<lparr>requests := requests ?w1 @ replicate (Suc k) (SelectStudent userId),
          sleeps := sleeps ?w1 @ take k [500, 1000]\<rparr>)"
    using assms(3,4,5,6) by (intro profile_loop_served) simp_all
  then show ?thesis
    using assms(1,2) by (simp add: fetchStudentProfile_eq)
qed

lemma fetchStudentProfile_exhausted:
  assumes "userId \<noteq> []" and "outcomes w (length (requests w)) \<noteq> Unanswered"
    and "\<forall>j<3. outcomes w (Suc (length (requests w)) + j) \<noteq> Served"
  shows "fetchStudentProfile userId w =
     (Returns None,
      w\<lparr>requests := requests w @ CountStudents # replicate 3 (SelectStudent userId),
        sleeps := sleeps w @ [500, 1000]\<rparr>)"
proof -
  let ?w1 = "w\<lparr>requests := requests w @ [CountStudents]\<rparr>"
  have "profile_loop userId 0 ?w1 =
     (Returns None,
      ?w1\<lparr>requests := requests ?w1 @ replicate 3 (SelectStudent userId),
          sleeps := sleeps ?w1 @ [500, 1000]\<rparr>)"
    using assms(3) by (intro profile_loop_exhausted) simp
  then show ?thesis
    using assms(1,2) by (simp add: fetchStudentProfile_eq)
qed

lemma fetchStudentProfile_is_retry:
  "userId \<noteq> [] \<Longrightarrow>
     fetchStudentProfile userId w =
       (case testSupabaseConnection w of
          (Hangs, w1) \<Rightarrow> (Hangs, w1)
        | (Returns isConnected, w1) \<Rightarrow>
            retry_with_backoff 3 (\<lambda>attempt. profile_attempt userId) None 1 w1)"
  by (simp add: fetchStudentProfile_def profile_loop_is_retry split: prod.splits result.splits)

lemma fetchSubjects_by_id:
  "fetchSubjectsForStudent (ById userId) w =
     (case fetchStudentProfile userId w of
        (Hangs, w1) \<Rightarrow> (Hangs, w1)
      | (Returns None, w1) \<Rightarrow> (Returns [], w1)
      | (Returns (Some q), w1) \<Rightarrow> fetchSubjectsForStudent (ByProfile q) w1)"
  by (simp add: fetchSubjectsForStudent_def subjects_after_def
        split: prod.splits result.splits option.splits)

lemma fetchStudentProfile_fails:
  assumes "\<forall>n\<ge>length (requests w). errored w n"
  shows "fst (fetchStudentProfile userId w) = Returns None"
proof (cases "userId = []")
  case True
  then show ?thesis
    by (simp add: fetchStudentProfile_def)
next
  case False
  have "outcomes w (length (requests w)) \<noteq> Unanswered"
    "\<forall>j<3. outcomes w (Suc (length (requests w)) + j) \<noteq> Served"
    using assms by (simp_all add: errored_iff)
  from fetchStudentProfile_exhausted[OF False this] show ?thesis
    by simp
qed

lemma fetchSubjects_fails:
  assumes "\<forall>n\<ge>length (requests w). errored w n"
  shows "fst (fetchSubjectsForStudent r w) = Returns []"
proof (cases r)
  case (ById studentId)
  have "fst (fetchStudentProfile studentId w) = Returns None"
    using assms by (rule fetchStudentProfile_fails)
  then show ?thesis
    using ById by (simp add: fetchSubjects_by_id split_def)
next
  case (ByProfile p)
  have "\<forall>j<3. errored w (length (requests w) + j)"
    using assms by simp
  from subjects_loop_exhausted[OF this] show ?thesis
    using ByProfile by (simp add: fetchSubjectsForStudent_def)
next
  case NoRef
  then show ?thesis
    by (simp add: fetchSubjectsForStudent_def)
qed

lemma project_star: "map (project [''*'']) bs = bs"
  by (induction bs) (simp_all add: project_def)

lemma fetchUserBookmarks_a_result:
  "fst (fetchUserBookmarks_a userId w) =
     (if outcomes w (length (requests w)) = Unanswered then Hangs
      else if outcomes w (length (requests w)) = Served
      then Returns (filter (\<lambda>b. user_id b = userId) (bookmarks w))
      else Returns [])"
  by (cases "outcomes w (length (requests w))")
     (simp_all add: fetchUserBookmarks_a_def prim_defs project_star)

lemma fetchUserBookmarks_single_attempt:
  "snd (fetchUserBookmarks_a userId w) =
     w\<lparr>requests := requests w @ [SelectBookmarks [''*''] userId]\<rparr>"
  "userId \<noteq> [] \<Longrightarrow> snd (fetchUserBookmarks_b userId w) =
     w\<lparr>requests := requests w @
         [SelectBookmarks [''id'', ''user_id'', ''note_id'', ''created_at''] userId,
          SelectBookmarks [''id'', ''user_id'', ''subject_id'', ''created_at''] userId]\<rparr>"
  "userId = [] \<Longrightarrow> snd (fetchUserBookmarks_b userId w) = w"
  by (cases "outcomes w (length (requests w))"; cases "outcomes w (Suc (length (requests w)))";
      simp add: fetchUserBookmarks_a_def fetchUserBookmarks_b_def prim_defs)+

lemma safe_operation_result:
  "fst (safeSupabaseOperation operation errorMessage defaultValue w) =
     (case fst (operation w) of
        Pending \<Rightarrow> Hangs
      | Data d \<Rightarrow> Returns d
      | Error m \<Rightarrow> Returns defaultValue
      | Threw n m \<Rightarrow> Returns defaultValue)"
proof (cases "operation w")
  case (Pair r w1)
  then show ?thesis
    by (cases r) (simp_all add: safeSupabaseOperation_def)
qed

lemma safe_operation_once:
  "snd (safeSupabaseOperation operation errorMessage defaultValue w) = snd (operation w)"
proof (cases "operation w")
  case (Pair r w1)
  then show ?thesis
    by (cases r) (simp_all add: safeSupabaseOperation_def)
qed

lemma unanswered_hangs:
  assumes "userId \<noteq> []" and "outcomes w (length (requests w)) = Unanswered"
  shows "fst (fetchStudentProfile userId w) = Hangs"
    and "fst (fetchSubjectsForStudent (ById userId) w) = Hangs"
    and "fst (fetchUserBookmarks_a userId w) = Hangs"
    and "fst (fetchUserBookmarks_b userId w) = Hangs"
  using assms
  by (simp_all add: fetchStudentProfile_eq fetchSubjects_by_id fetchUserBookmarks_a_result
        fetch_b_result)

lemma subjects_unanswered_hangs:
  assumes "k < 3" and "\<forall>j<k. errored w (length (requests w) + j)"
    and "outcomes w (length (requests w) + k) = Unanswered"
  shows "fetchSubjectsForStudent (ByProfile p) w =
     (Hangs,
      w\<lparr>requests := requests w @
           replicate (Suc k) (SelectSubjects (academic_year p) (semester p) (branch p)),
        sleeps := sleeps w @ take k [500, 1000]\<rparr>)"
  using subjects_loop_unanswered[OF assms] by (simp add: fetchSubjectsForStudent_def)

lemma profile_timeout_retried:
  assumes "userId \<noteq> []" and "outcomes w (length (requests w)) \<noteq> Unanswered"
    and "\<forall>n>length (requests w). outcomes w n = Unanswered"
  shows "fetchStudentProfile userId w =
     (Returns None,
      w\<lparr>requests := requests w @ CountStudents # replicate 3 (SelectStudent userId),
        sleeps := sleeps w @ [500, 1000]\<rparr>)"
proof -
  have "\<forall>j<3. outcomes w (Suc (length (requests w)) + j) \<noteq> Served"
    using assms(3) by simp
  from fetchStudentProfile_exhausted[OF assms(1,2) this] show ?thesis .
qed

subsection \<open>Default values when every attempt fails\<close>

text \<open>
  Claim C1, evaluated on the code. When the service answers every request that the call
  sends with an error object or a rejection, fetchStudentProfile returns null,
  fetchSubjectsForStudent returns the empty list (called with an id, with a profile, or
  with nothing) and fetchUserBookmarks (both listings) returns the empty list, and
  safeSupabaseOperation returns the default value it was given; each request sits in a try
  block whose handler returns or retries, so the result is never an exception. When a
  request times out, that is, when it is not answered, the default value is returned by
  fetchStudentProfile alone, and only for its profile query, the one request that carries
  the abort signal: each attempt is aborted and the third returns null. In every other
  place the timer aborts a controller that no request listens to. When the first request
  of the call is not answered, fetchStudentProfile (its connection test), both
  fetchUserBookmarks and fetchSubjectsForStudent never return; nor does
  fetchSubjectsForStudent when the attempt after k failed ones is not answered, nor
  safeSupabaseOperation when its operation is not.
\<close>

theorem failed_fetch_returns_default_unless_unanswered:
  "((\<forall>n\<ge>length (requests w). errored w n) \<longrightarrow>
        fst (fetchStudentProfile userId w) = Returns None
      \<and> fst (fetchSubjectsForStudent r w) = Returns []
      \<and> fst (fetchUserBookmarks_a userId w) = Returns []
      \<and> fst (fetchUserBookmarks_b userId w) = Returns [])
   \<and> fst (safeSupabaseOperation operation errorMessage defaultValue w) =
       (case fst (operation w) of
          Pending \<Rightarrow> Hangs
        | Data d \<Rightarrow> Returns d
        | Error m \<Rightarrow> Returns defaultValue
        | Threw n m \<Rightarrow> Returns defaultValue)
   \<and> (userId \<noteq> [] \<and> outcomes w (length (requests w)) \<noteq> Unanswered
        \<and> (\<forall>n>length (requests w). outcomes w n = Unanswered) \<longrightarrow>
        fetchStudentProfile userId w =
          (Returns None,
           w\<lparr>requests := requests w @ CountStudents # replicate 3 (SelectStudent userId),
             sleeps := sleeps w @ [500, 1000]\<rparr>))
   \<and> (userId \<noteq> [] \<and> outcomes w (length (requests w)) = Unanswered \<longrightarrow>
        fst (fetchStudentProfile userId w) = Hangs
      \<and> fst (fetchSubjectsForStudent (ById userId) w) = Hangs
      \<and> fst (fetchUserBookmarks_a userId w) = Hangs
      \<and> fst (fetchUserBookmarks_b userId w) = Hangs)
   \<and> (k < 3 \<and> (\<forall>j<k. errored w (length (requests w) + j))
        \<and> outcomes w (length (requests w) + k) = Unanswered \<longrightarrow>
        fetchSubjectsForStudent (ByProfile p) w =
          (Hangs,
           w\<lparr>requests := requests w @
                replicate (Suc k) (SelectSubjects (academic_year p) (semester p) (branch p)),
             sleeps := sleeps w @ take k [500, 1000]\<rparr>))"
proof -
  have answered: "(\<forall>n\<ge>length (requests w). errored w n) \<longrightarrow>
        fst (fetchStudentProfile userId w) = Returns None
      \<and> fst (fetchSubjectsForStudent r w) = Returns []
      \<and> fst (fetchUserBookmarks_a userId w) = Returns []
      \<and> fst (fetchUserBookmarks_b userId w) = Returns []"
  proof
    assume all: "\<forall>n\<ge>length (requests w). errored w n"
    then have two: "errored w (length (requests w))" "errored w (Suc (length (requests w)))"
      by simp_all
    have b: "fst (fetchUserBookmarks_b userId w) = Returns []"
    proof (cases "userId = []")
      case True
      then show ?thesis
        by (simp add: fetchUserBookmarks_b_def)
    next
      case False
      then show ?thesis
        using two by (simp add: fetch_b_result errored_iff)
    qed
    have a: "fst (fetchUserBookmarks_a userId w) = Returns []"
      using two by (simp add: fetchUserBookmarks_a_result errored_iff)
    show "fst (fetchStudentProfile userId w) = Returns None
      \<and> fst (fetchSubjectsForStudent r w) = Returns []
      \<and> fst (fetchUserBookmarks_a userId w) = Returns []
      \<and> fst (fetchUserBookmarks_b userId w) = Returns []"
      using fetchStudentProfile_fails[OF all] fetchSubjects_fails[OF all] a b by simp
  qed
  show ?thesis
    using answered safe_operation_result[of operation errorMessage defaultValue w]
      profile_timeout_retried[of userId w] unanswered_hangs[of userId w]
      subjects_unanswered_hangs[of k w p]
    by simp
qed

text \<open>
  Examples. A service that refuses everything: the defaults. A service that never
  answers: no call returns. A service that answers the connection test and nothing after
  it: the three profile queries are aborted in turn and null is returned.
\<close>

theorem failed_fetch_returns_default_unless_unanswered_witness:
  "fst (fetchStudentProfile ''u1'' (blank_world refuse_all)) = Returns None
   \<and> fst (fetchSubjectsForStudent (ById ''u1'') (blank_world refuse_all)) = Returns []
   \<and> fst (fetchUserBookmarks_a ''u1'' (blank_world refuse_all)) = Returns []
   \<and> fst (fetchUserBookmarks_b ''u1'' (blank_world refuse_all)) = Returns []
   \<and> fst (safeSupabaseOperation count_students ''connection test'' ()
            (blank_world refuse_all)) = Returns ()
   \<and> fst (safeSupabaseOperation count_students ''connection test'' ()
            (blank_world never_answer)) = Hangs
   \<and> fetchStudentProfile ''u1'' (blank_world answer_first_only) =
       (Returns None,
        (blank_world answer_first_only)\<lparr>requests :=
            [CountStudents, SelectStudent ''u1'', SelectStudent ''u1'', SelectStudent ''u1''],
          sleeps := [500, 1000]\<rparr>)
   \<and> fst (fetchStudentProfile ''u1'' (blank_world never_answer)) = Hangs
   \<and> fst (fetchSubjectsForStudent (ById ''u1'') (blank_world never_answer)) = Hangs
   \<and> fst (fetchUserBookmarks_a ''u1'' (blank_world never_answer)) = Hangs
   \<and> fst (fetchUserBookmarks_b ''u1'' (blank_world never_answer)) = Hangs
   \<and> fetchSubjectsForStudent (ByProfile cse_profile) (blank_world never_answer) =
       (Hangs, (blank_world never_answer)\<lparr>requests := [SelectSubjects 1 1 ''CSE'']\<rparr>)"
proof -
  let ?refuse = "blank_world refuse_all" and ?never = "blank_world never_answer"
    and ?first = "blank_world answer_first_only"
  have refused: "\<forall>n\<ge>length (requests ?refuse). errored ?refuse n"
    by (simp add: blank_world_def refuse_all_def errored_def)
  have op_refused: "fst (count_students ?refuse) = Error ''service unavailable''"
    by (simp add: prim_defs blank_world_def refuse_all_def)
  have op_pending: "fst (count_students ?never) = Pending"
    by (simp add: prim_defs blank_world_def never_answer_def)
  have first: "''u1'' \<noteq> [] \<and> outcomes ?first (length (requests ?first)) \<noteq> Unanswered
      \<and> (\<forall>n>length (requests ?first). outcomes ?first n = Unanswered)"
    by (simp add: blank_world_def answer_first_only_def)
  have never: "''u1'' \<noteq> [] \<and> outcomes ?never (length (requests ?never)) = Unanswered"
    by (simp add: blank_world_def never_answer_def)
  have never0: "(0::nat) < 3 \<and> (\<forall>j<0. errored ?never (length (requests ?never) + j))
      \<and> outcomes ?never (length (requests ?never) + 0) = Unanswered"
    by (simp add: blank_world_def never_answer_def)
  have log: "requests ?never = []" "sleeps ?never = []" "requests ?first = []"
    "sleeps ?first = []"
    by (simp_all add: blank_world_def)
  have prof: "academic_year cse_profile = 1" "semester cse_profile = 1"
    "branch cse_profile = ''CSE''"
    by (simp_all add: cse_profile_def)
  note at_refuse = failed_fetch_returns_default_unless_unanswered
      [of ?refuse "''u1''" "ById ''u1''" count_students "''connection test''" "()" 0 cse_profile]
  note at_never = failed_fetch_returns_default_unless_unanswered
      [of ?never "''u1''" "ById ''u1''" count_students "''connection test''" "()" 0 cse_profile]
  note at_first = failed_fetch_returns_default_unless_unanswered
      [of ?first "''u1''" "ById ''u1''" count_students "''connection test''" "()" 0 cse_profile]
  have 1: "fst (fetchStudentProfile ''u1'' ?refuse) = Returns None
      \<and> fst (fetchSubjectsForStudent (ById ''u1'') ?refuse) = Returns []
      \<and> fst (fetchUserBookmarks_a ''u1'' ?refuse) = Returns []
      \<and> fst (fetchUserBookmarks_b ''u1'' ?refuse) = Returns []"
    using at_refuse refused by blast
  have 2: "fst (safeSupabaseOperation count_students ''connection test'' () ?refuse) = Returns ()"
    using at_refuse op_refused by simp
  have 3: "fst (safeSupabaseOperation count_students ''connection test'' () ?never) = Hangs"
    using at_never op_pending by simp
  have 4: "fetchStudentProfile ''u1'' ?first =
       (Returns None,
        ?first\<lparr>requests := requests ?first @ CountStudents # replicate 3 (SelectStudent ''u1''),
          sleeps := sleeps ?first @ [500, 1000]\<rparr>)"
    using at_first first by blast
  have 5: "fst (fetchStudentProfile ''u1'' ?never) = Hangs
      \<and> fst (fetchSubjectsForStudent (ById ''u1'') ?never) = Hangs
      \<and> fst (fetchUserBookmarks_a ''u1'' ?never) = Hangs
      \<and> fst (fetchUserBookmarks_b ''u1'' ?never) = Hangs"
    using at_never never by blast
  have 6: "fetchSubjectsForStudent (ByProfile cse_profile) ?never =
          (Hangs,
           ?never\<lparr>requests := requests ?never @
                replicate (Suc 0) (SelectSubjects (academic_year cse_profile)
                   (semester cse_profile) (branch cse_profile)),
             sleeps := sleeps ?never @ take 0 [500, 1000]\<rparr>)"
    using at_never never0 by blast
  show ?thesis
    using 1 2 3 4 5 6 by (simp add: log prof numeral_3_eq_3)
qed

subsection \<open>Retry bound and delays\<close>

lemma fetchSubjects_served:
  assumes "k < 3" and "\<forall>j<k. errored w (length (requests w) + j)"
    and "outcomes w (length (requests w) + k) = Served"
    and "filter (\<lambda>x. subj_academic_year x = academic_year p \<and> subj_semester x = semester p
                       \<and> (subj_branch x = branch p \<or> is_common x)) (subjects w) \<noteq> []"
  shows "fetchSubjectsForStudent (ByProfile p) w =
     (Returns (filter (\<lambda>x. subj_academic_year x = academic_year p
                            \<and> subj_semester x = semester p
                            \<and> (subj_branch x = branch p \<or> is_common x)) (subjects w)),
      w\<lparr>requests := requests w @
           replicate (Suc k) (SelectSubjects (academic_year p) (semester p) (branch p)),
        sleeps := sleeps w @ take k [500, 1000]\<rparr>)"
  using subjects_loop_served[OF assms] by (simp add: fetchSubjectsForStudent_def)

lemma fetchSubjects_exhausted:
  assumes "\<forall>j<3. errored w (length (requests w) + j)"
  shows "fetchSubjectsForStudent (ByProfile p) w =
     (Returns [],
      w\<lparr>requests := requests w @
           replicate 3 (SelectSubjects (academic_year p) (semester p) (branch p)),
        sleeps := sleeps w @ [500, 1000]\<rparr>)"
  using subjects_loop_exhausted[OF assms] by (simp add: fetchSubjectsForStudent_def)

lemma fetchSubjects_is_retry:
  "fetchSubjectsForStudent (ByProfile p) w =
     retry_with_backoff 3 (subjects_attempt (academic_year p) (semester p) (branch p)) [] 1 w"
  by (simp add: fetchSubjectsForStudent_def subjects_loop_is_retry)

lemma profile_attempt_fails:
  "outcomes w (length (requests w)) \<noteq> Served \<Longrightarrow>
     profile_attempt userId w =
       (Returns None, w\<lparr>requests := requests w @ [SelectStudent userId]\<rparr>)"
  using profile_attempt_fail[of w userId] profile_attempt_snd[of userId w]
  by (cases "profile_attempt userId w") simp

text \<open>
  Claim C7, as the code has it. fetchStudentProfile, after its connection test (sent
  once), and fetchSubjectsForStudent are the retry contract with the bound 3: attempt;
  when the attempt fails and it was not the third, wait and attempt again; after the
  third failure return the default. The wait after attempt k is 500 * 2^(k-1) ms in
  fetchStudentProfile and 500 * k ms in fetchSubjectsForStudent, which is 500 ms and then
  1000 ms in both, the bound allowing two retries. An attempt of fetchStudentProfile fails
  when its query is not served: error object, rejection, or no answer within the attempt's
  timeout. An attempt of fetchSubjectsForStudent fails when its query comes back with an
  error object or rejects. So when the first k attempts fail (k = 0, 1 or 2) and the
  next is served, exactly k + 1 queries are sent and the first k of the waits 500, 1000
  are made, and the served attempt's rows are returned; when three attempts fail, three
  queries are sent, both waits are made and the default is returned.
  fetchSubjectsForStudent called with an id is fetchStudentProfile followed, when a
  profile came back, by fetchSubjectsForStudent with that profile: two retry loops in
  sequence. fetchUserBookmarks (both listings) sends each of its queries once and waits
  for nothing, whatever the service answers: it does not retry. Nor does
  safeSupabaseOperation, which runs its operation once.
\<close>

theorem retry_bound_and_backoff:
  "(userId \<noteq> [] \<longrightarrow>
      fetchStudentProfile userId w =
        (case testSupabaseConnection w of
           (Hangs, w1) \<Rightarrow> (Hangs, w1)
         | (Returns isConnected, w1) \<Rightarrow>
             retry_with_backoff 3 (\<lambda>attempt. profile_attempt userId) None 1 w1))
   \<and> fetchSubjectsForStudent (ByProfile p) w =
       retry_with_backoff 3 (subjects_attempt (academic_year p) (semester p) (branch p)) [] 1 w
   \<and> fetchSubjectsForStudent (ById userId) w =
       (case fetchStudentProfile userId w of
          (Hangs, w1) \<Rightarrow> (Hangs, w1)
        | (Returns None, w1) \<Rightarrow> (Returns [], w1)
        | (Returns (Some q), w1) \<Rightarrow> fetchSubjectsForStudent (ByProfile q) w1)
   \<and> (outcomes w (length (requests w)) \<noteq> Served \<longrightarrow>
        profile_attempt userId w =
          (Returns None, w\<lparr>requests := requests w @ [SelectStudent userId]\<rparr>))
   \<and> (errored w (length (requests w)) \<longrightarrow>
        subjects_attempt y s b attempt w =
          (Returns None, w\<lparr>requests := requests w @ [SelectSubjects y s b]\<rparr>))
   \<and> (userId \<noteq> [] \<and> outcomes w (length (requests w)) \<noteq> Unanswered \<and> k < 3
        \<and> (\<forall>j<k. outcomes w (Suc (length (requests w)) + j) \<noteq> Served)
        \<and> outcomes w (Suc (length (requests w)) + k) = Served
        \<and> length (filter (\<lambda>r. student_id r = userId) (students w)) \<le> 1 \<longrightarrow>
        fetchStudentProfile userId w =
          (Returns (find (\<lambda>r. student_id r = userId) (students w)),
           w\<lparr>requests := requests w @ CountStudents # replicate (Suc k) (SelectStudent userId),
             sleeps := sleeps w @ take k [500, 1000]\<rparr>))
   \<and> (userId \<noteq> [] \<and> outcomes w (length (requests w)) \<noteq> Unanswered
        \<and> (\<forall>j<3. outcomes w (Suc (length (requests w)) + j) \<noteq> Served) \<longrightarrow>
        fetchStudentProfile userId w =
          (Returns None,
           w\<lparr>requests := requests w @ CountStudents # replicate 3 (SelectStudent userId),
             sleeps := sleeps w @ [500, 1000]\<rparr>))
   \<and> (k < 3 \<and> (\<forall>j<k. errored w (length (requests w) + j))
        \<and> outcomes w (length (requests w) + k) = Served
        \<and> filter (\<lambda>x. subj_academic_year x = academic_year p \<and> subj_semester x = semester p
                         \<and> (subj_branch x = branch p \<or> is_common x)) (subjects w) \<noteq> [] \<longrightarrow>
        fetchSubjectsForStudent (ByProfile p) w =
          (Returns (filter (\<lambda>x. subj_academic_year x = academic_year p
                                 \<and> subj_semester x = semester p
                                 \<and> (subj_branch x = branch p \<or> is_common x)) (subjects w)),
           w\<lparr>requests := requests w @
                replicate (Suc k) (SelectSubjects (academic_year p) (semester p) (branch p)),
             sleeps := sleeps w @ take k [500, 1000]\<rparr>))
   \<and> ((\<forall>j<3. errored w (length (requests w) + j)) \<longrightarrow>
        fetchSubjectsForStudent (ByProfile p) w =
          (Returns [],
           w\<lparr>requests := requests w @
                replicate 3 (SelectSubjects (academic_year p) (semester p) (branch p)),
             sleeps := sleeps w @ [500, 1000]\<rparr>))
   \<and> snd (fetchUserBookmarks_a userId w) =
       w\<lparr>requests := requests w @ [SelectBookmarks [''*''] userId]\<rparr>
   \<and> (userId \<noteq> [] \<longrightarrow>
        snd (fetchUserBookmarks_b userId w) =
          w\<lparr>requests := requests w @
              [SelectBookmarks [''id'', ''user_id'', ''note_id'', ''created_at''] userId,
               SelectBookmarks [''id'', ''user_id'', ''subject_id'', ''created_at''] userId]\<rparr>)
   \<and> snd (safeSupabaseOperation operation errorMessage defaultValue w) = snd (operation w)"
  using fetchStudentProfile_is_retry[of userId w] fetchSubjects_is_retry[of p w]
    fetchSubjects_by_id[of userId w] profile_attempt_fails[of w userId]
    subjects_attempt_errored[of w y s b attempt]
    fetchStudentProfile_served[of userId w k] fetchStudentProfile_exhausted[of userId w]
    fetchSubjects_served[of k w p] fetchSubjects_exhausted[of w p]
    fetchUserBookmarks_single_attempt(1)[of userId w]
    fetchUserBookmarks_single_attempt(2)[of userId w]
    safe_operation_once[of operation errorMessage defaultValue w]
  by simp

text \<open>
  Examples. One failed profile query and then a served one: two queries after the
  connection test, one wait of 500 ms. One failed subjects query and then a served one:
  two queries, one wait of 500 ms. Everything refused: three queries and the waits 500
  and 1000. Called with an id while the second and the fourth request are refused: each
  of the two loops retries once.
\<close>

theorem retry_bound_and_backoff_witness:
  "fetchStudentProfile ''u1'' (campus refuse_second) =
     retry_with_backoff 3 (\<lambda>attempt. profile_attempt ''u1'') None 1
       ((campus refuse_second)\<lparr>requests := [CountStudents]\<rparr>)
   \<and> fetchStudentProfile ''u1'' (campus refuse_second) =
     (Returns (Some cse_profile),
      (campus refuse_second)\<lparr>requests :=
          [CountStudents, SelectStudent ''u1'', SelectStudent ''u1''],
        sleeps := [500]\<rparr>)
   \<and> fetchStudentProfile ''u1'' (campus refuse_all) =
     (Returns None,
      (campus refuse_all)\<lparr>requests :=
          [CountStudents, SelectStudent ''u1'', SelectStudent ''u1'', SelectStudent ''u1''],
        sleeps := [500, 1000]\<rparr>)
   \<and> fetchSubjectsForStudent (ByProfile cse_profile) (campus refuse_first) =
     (Returns [data_structures],
      (campus refuse_first)\<lparr>requests :=
          [SelectSubjects 1 1 ''CSE'', SelectSubjects 1 1 ''CSE''],
        sleeps := [500]\<rparr>)
   \<and> fetchSubjectsForStudent (ByProfile cse_profile) (campus refuse_all) =
     (Returns [],
      (campus refuse_all)\<lparr>requests :=
          [SelectSubjects 1 1 ''CSE'', SelectSubjects 1 1 ''CSE'', SelectSubjects 1 1 ''CSE''],
        sleeps := [500, 1000]\<rparr>)
   \<and> fetchSubjectsForStudent (ById ''u1'') (campus refuse_second_and_fourth) =
     (Returns [data_structures],
      (campus refuse_second_and_fourth)\<lparr>requests :=
          [CountStudents, SelectStudent ''u1'', SelectStudent ''u1'',
           SelectSubjects 1 1 ''CSE'', SelectSubjects 1 1 ''CSE''],
        sleeps := [500, 500]\<rparr>)
   \<and> profile_attempt ''u1'' (campus refuse_all) =
     (Returns None, (campus refuse_all)\<lparr>requests := [SelectStudent ''u1'']\<rparr>)
   \<and> subjects_attempt 1 1 ''CSE'' 1 (campus refuse_all) =
     (Returns None, (campus refuse_all)\<lparr>requests := [SelectSubjects 1 1 ''CSE'']\<rparr>)
   \<and> snd (fetchUserBookmarks_b ''u1'' (campus refuse_all)) =
     (campus refuse_all)\<lparr>requests :=
        [SelectBookmarks [''id'', ''user_id'', ''note_id'', ''created_at''] ''u1'',
         SelectBookmarks [''id'', ''user_id'', ''subject_id'', ''created_at''] ''u1'']\<rparr>"
proof -
  let ?flaky = "campus refuse_second" and ?down = "campus refuse_all"
    and ?first = "campus refuse_first" and ?both = "campus refuse_second_and_fourth"
  let ?mid = "?both\<lparr>requests := [CountStudents, SelectStudent ''u1'', SelectStudent ''u1''],
                    sleeps := [500]\<rparr>"
  have prof: "academic_year cse_profile = 1" "semester cse_profile = 1"
    "branch cse_profile = ''CSE''" "student_id cse_profile = ''u1''"
    by (simp_all add: cse_profile_def)
  have subj: "subj_academic_year data_structures = 1" "subj_semester data_structures = 1"
    "subj_branch data_structures = ''CSE''" "subj_semester circuits = 2"
    by (simp_all add: data_structures_def circuits_def)
  have state: "requests (campus oc) = []" "sleeps (campus oc) = []"
    "students (campus oc) = [cse_profile]" "subjects (campus oc) = [data_structures, circuits]"
    "outcomes (campus oc) = oc" for oc
    by (simp_all add: campus_def blank_world_def)
  note at_flaky = retry_bound_and_backoff
      [of "''u1''" ?flaky cse_profile 1 1 "''CSE''" 1 "Suc 0" count_students "[]" "()"]
  note at_down = retry_bound_and_backoff
      [of "''u1''" ?down cse_profile 1 1 "''CSE''" 1 0 count_students "[]" "()"]
  note at_first = retry_bound_and_backoff
      [of "''u1''" ?first cse_profile 1 1 "''CSE''" 1 "Suc 0" count_students "[]" "()"]
  note at_both = retry_bound_and_backoff
      [of "''u1''" ?both cse_profile 1 1 "''CSE''" 1 "Suc 0" count_students "[]" "()"]
  note at_mid = retry_bound_and_backoff
      [of "''u1''" ?mid cse_profile 1 1 "''CSE''" 1 "Suc 0" count_students "[]" "()"]
  have "''u1'' \<noteq> [] \<longrightarrow>
      fetchStudentProfile ''u1'' ?flaky =
        (case testSupabaseConnection ?flaky of
           (Hangs, w1) \<Rightarrow> (Hangs, w1)
         | (Returns isConnected, w1) \<Rightarrow>
             retry_with_backoff 3 (\<lambda>attempt. profile_attempt ''u1'') None 1 w1)"
    using at_flaky by blast
  then have 0: "fetchStudentProfile ''u1'' ?flaky =
     retry_with_backoff 3 (\<lambda>attempt. profile_attempt ''u1'') None 1
       (?flaky\<lparr>requests := [CountStudents]\<rparr>)"
    by (simp add: test_connection_eq state refuse_second_def)
  have flaky: "''u1'' \<noteq> [] \<and> outcomes ?flaky (length (requests ?flaky)) \<noteq> Unanswered
      \<and> Suc 0 < 3
      \<and> (\<forall>j<Suc 0. outcomes ?flaky (Suc (length (requests ?flaky)) + j) \<noteq> Served)
      \<and> outcomes ?flaky (Suc (length (requests ?flaky)) + Suc 0) = Served
      \<and> length (filter (\<lambda>r. student_id r = ''u1'') (students ?flaky)) \<le> 1"
    by (simp add: state prof refuse_second_def)
  have 1: "fetchStudentProfile ''u1'' ?flaky =
     (Returns (find (\<lambda>r. student_id r = ''u1'') (students ?flaky)),
      ?flaky\<lparr>requests := requests ?flaky @ CountStudents #
                 replicate (Suc (Suc 0)) (SelectStudent ''u1''),
        sleeps := sleeps ?flaky @ take (Suc 0) [500, 1000]\<rparr>)"
    using at_flaky flaky by blast
  have down: "''u1'' \<noteq> [] \<and> outcomes ?down (length (requests ?down)) \<noteq> Unanswered
      \<and> (\<forall>j<3. outcomes ?down (Suc (length (requests ?down)) + j) \<noteq> Served)"
    by (simp add: state refuse_all_def)
  have 2: "fetchStudentProfile ''u1'' ?down =
     (Returns None,
      ?down\<lparr>requests := requests ?down @ CountStudents # replicate 3 (SelectStudent ''u1''),
        sleeps := sleeps ?down @ [500, 1000]\<rparr>)"
    using at_down down by blast
  have first: "Suc 0 < 3 \<and> (\<forall>j<Suc 0. errored ?first (length (requests ?first) + j))
      \<and> outcomes ?first (length (requests ?first) + Suc 0) = Served
      \<and> filter (\<lambda>x. subj_academic_year x = academic_year cse_profile
                      \<and> subj_semester x = semester cse_profile
                      \<and> (subj_branch x = branch cse_profile \<or> is_common x))
           (subjects ?first) \<noteq> []"
    by (simp add: state prof subj refuse_first_def errored_def)
  have 3: "fetchSubjectsForStudent (ByProfile cse_profile) ?first =
     (Returns (filter (\<lambda>x. subj_academic_year x = academic_year cse_profile
                            \<and> subj_semester x = semester cse_profile
                            \<and> (subj_branch x = branch cse_profile \<or> is_common x))
                 (subjects ?first)),
      ?first\<lparr>requests := requests ?first @
           replicate (Suc (Suc 0)) (SelectSubjects (academic_year cse_profile)
              (semester cse_profile) (branch cse_profile)),
        sleeps := sleeps ?first @ take (Suc 0) [500, 1000]\<rparr>)"
    using at_first first by blast
  have down_s: "\<forall>j<3. errored ?down (length (requests ?down) + j)"
    by (simp add: state refuse_all_def errored_def)
  have 4: "fetchSubjectsForStudent (ByProfile cse_profile) ?down =
     (Returns [],
      ?down\<lparr>requests := requests ?down @
           replicate 3 (SelectSubjects (academic_year cse_profile)
              (semester cse_profile) (branch cse_profile)),
        sleeps := sleeps ?down @ [500, 1000]\<rparr>)"
    using at_down down_s by blast
  have both: "''u1'' \<noteq> [] \<and> outcomes ?both (length (requests ?both)) \<noteq> Unanswered
      \<and> Suc 0 < 3
      \<and> (\<forall>j<Suc 0. outcomes ?both (Suc (length (requests ?both)) + j) \<noteq> Served)
      \<and> outcomes ?both (Suc (length (requests ?both)) + Suc 0) = Served
      \<and> length (filter (\<lambda>r. student_id r = ''u1'') (students ?both)) \<le> 1"
    by (simp add: state prof refuse_second_and_fourth_def)
  have 5: "fetchStudentProfile ''u1'' ?both =
     (Returns (find (\<lambda>r. student_id r = ''u1'') (students ?both)),
      ?both\<lparr>requests := requests ?both @ CountStudents #
                 replicate (Suc (Suc 0)) (SelectStudent ''u1''),
        sleeps := sleeps ?both @ take (Suc 0) [500, 1000]\<rparr>)"
    using at_both both by blast
  then have 5: "fetchStudentProfile ''u1'' ?both = (Returns (Some cse_profile), ?mid)"
    by (simp add: state prof)
  have by_id: "fetchSubjectsForStudent (ById ''u1'') ?both =
       (case fetchStudentProfile ''u1'' ?both of
          (Hangs, w1) \<Rightarrow> (Hangs, w1)
        | (Returns None, w1) \<Rightarrow> (Returns [], w1)
        | (Returns (Some q), w1) \<Rightarrow> fetchSubjectsForStudent (ByProfile q) w1)"
    using at_both by blast
  have mid: "Suc 0 < 3 \<and> (\<forall>j<Suc 0. errored ?mid (length (requests ?mid) + j))
      \<and> outcomes ?mid (length (requests ?mid) + Suc 0) = Served
      \<and> filter (\<lambda>x. subj_academic_year x = academic_year cse_profile
                      \<and> subj_semester x = semester cse_profile
                      \<and> (subj_branch x = branch cse_profile \<or> is_common x))
           (subjects ?mid) \<noteq> []"
    by (simp add: state prof subj refuse_second_and_fourth_def errored_def)
  have 6: "fetchSubjectsForStudent (ByProfile cse_profile) ?mid =
     (Returns (filter (\<lambda>x. subj_academic_year x = academic_year cse_profile
                            \<and> subj_semester x = semester cse_profile
                            \<and> (subj_branch x = branch cse_profile \<or> is_common x))
                 (subjects ?mid)),
      ?mid\<lparr>requests := requests ?mid @
           replicate (Suc (Suc 0)) (SelectSubjects (academic_year cse_profile)
              (semester cse_profile) (branch cse_profile)),
        sleeps := sleeps ?mid @ take (Suc 0) [500, 1000]\<rparr>)"
    using at_mid mid by blast
  have 7: "fetchSubjectsForStudent (ById ''u1'') ?both =
     (Returns [data_structures],
      ?both\<lparr>requests :=
          [CountStudents, SelectStudent ''u1'', SelectStudent ''u1'',
           SelectSubjects 1 1 ''CSE'', SelectSubjects 1 1 ''CSE''],
        sleeps := [500, 500]\<rparr>)"
    unfolding by_id 5 using 6 by (simp add: state prof subj)
  have attempt_p: "outcomes ?down (length (requests ?down)) \<noteq> Served"
    by (simp add: state refuse_all_def)
  have 8: "profile_attempt ''u1'' ?down =
          (Returns None, ?down\<lparr>requests := requests ?down @ [SelectStudent ''u1'']\<rparr>)"
    using at_down attempt_p by blast
  have attempt_s: "errored ?down (length (requests ?down))"
    by (simp add: state refuse_all_def errored_def)
  have 9: "subjects_attempt 1 1 ''CSE'' 1 ?down =
          (Returns None, ?down\<lparr>requests := requests ?down @ [SelectSubjects 1 1 ''CSE'']\<rparr>)"
    using at_down attempt_s by blast
  have 10: "snd (fetchUserBookmarks_b ''u1'' ?down) =
          ?down\<lparr>requests := requests ?down @
              [SelectBookmarks [''id'', ''user_id'', ''note_id'', ''created_at''] ''u1'',
               SelectBookmarks [''id'', ''user_id'', ''subject_id'', ''created_at''] ''u1'']\<rparr>"
    using at_down by simp
  show ?thesis
    using 0 1 2 3 4 7 8 9 10 by (simp add: state prof subj numeral_3_eq_3)
qed

text \<open>
  Claim C7 as stated fails on fetchUserBookmarks, the resilient fetch of the bookmarks:
  with every request refused it sends its queries once, waits for nothing and returns the
  empty list.
\<close>

theorem fetchUserBookmarks_no_retry_counterexample:
  "\<not> retried (blank_world refuse_all) (snd (fetchUserBookmarks_b ''u1'' (blank_world refuse_all)))
   \<and> sleeps (snd (fetchUserBookmarks_b ''u1'' (blank_world refuse_all))) = []
   \<and> length (requests (snd (fetchUserBookmarks_b ''u1'' (blank_world refuse_all)))) = 2
   \<and> fst (fetchUserBookmarks_b ''u1'' (blank_world refuse_all)) = Returns []
   \<and> \<not> retried (blank_world refuse_all) (snd (fetchUserBookmarks_a ''u1'' (blank_world refuse_all)))
   \<and> sleeps (snd (fetchUserBookmarks_a ''u1'' (blank_world refuse_all))) = []"
  by (simp add: retried_def fetchUserBookmarks_b_def fetchUserBookmarks_a_def prim_defs
        blank_world_def refuse_all_def fulfilled_ok_def rows_of_def)

subsection \<open>Subjects for a created profile\<close>

lemma subjects_attempt_frame:
  "outcomes (snd (subjects_attempt y s b a w)) = outcomes w"
  "subjects (snd (subjects_attempt y s b a w)) = subjects w"
  "students (snd (subjects_attempt y s b a w)) = students w"
  by (cases "outcomes w (length (requests w))";
      cases "outcomes w (Suc (length (requests w)))";
      simp add: subjects_attempt_def prim_defs)+

lemma subjects_attempt_sound:
  assumes "fst (subjects_attempt y s b a w) = Returns (Some v)"
  shows "v = filter (\<lambda>x. subj_academic_year x = y \<and> subj_semester x = s
                      \<and> (subj_branch x = b \<or> is_common x)) (subjects w)
       \<or> (filter (\<lambda>x. subj_academic_year x = y \<and> subj_semester x = s
                      \<and> (subj_branch x = b \<or> is_common x)) (subjects w) = []
          \<and> v = filter (\<lambda>x. subj_academic_year x = y \<or> is_common x) (subjects w))"
  using assms
  by (cases "outcomes w (length (requests w))";
      cases "outcomes w (Suc (length (requests w)))";
      simp add: subjects_attempt_def prim_defs split: if_splits)

lemma subjects_loop_sound:
  "subjects (snd (subjects_loop y s b a w)) = subjects w
     \<and> (returned (fst (subjects_loop y s b a w)) = []
        \<or> returned (fst (subjects_loop y s b a w)) =
            filter (\<lambda>x. subj_academic_year x = y \<and> subj_semester x = s
                         \<and> (subj_branch x = b \<or> is_common x)) (subjects w)
        \<or> (filter (\<lambda>x. subj_academic_year x = y \<and> subj_semester x = s
                         \<and> (subj_branch x = b \<or> is_common x)) (subjects w) = []
            \<and> returned (fst (subjects_loop y s b a w)) =
                filter (\<lambda>x. subj_academic_year x = y \<or> is_common x) (subjects w)))"
proof (induction "3 - a" arbitrary: a w)
  case 0
  then show ?case
    by (subst (1 2 3 4) subjects_loop_unfold) (simp add: returned_def)
next
  case (Suc n)
  then have a: "n = 3 - Suc a" "a < 3"
    by simp_all
  note fr = subjects_attempt_frame[of y s b "Suc a" w]
  let ?w' = "sleep (500 * Suc a) (snd (subjects_attempt y s b (Suc a) w))"
  show ?case
  proof (cases "fst (subjects_attempt y s b (Suc a) w)")
    case Hangs
    then have "subjects_loop y s b a w = (Hangs, snd (subjects_attempt y s b (Suc a) w))"
      using a(2) by (subst subjects_loop_unfold) simp
    then show ?thesis
      using fr by (simp add: returned_def)
  next
    case (Returns r)
    show ?thesis
    proof (cases r)
      case (Some v)
      then have "subjects_loop y s b a w = (Returns v, snd (subjects_attempt y s b (Suc a) w))"
        using a(2) Returns by (subst subjects_loop_unfold) simp
      then show ?thesis
        using fr subjects_attempt_sound[of y s b "Suc a" w v] Returns Some
        by (auto simp add: returned_def)
    next
      case None
      show ?thesis
      proof (cases "a = 2")
        case True
        then have "subjects_loop y s b a w = (Returns [], snd (subjects_attempt y s b (Suc a) w))"
          using Returns None by (subst subjects_loop_unfold) simp
        then show ?thesis
          using fr by (simp add: returned_def)
      next
        case False
        then have "subjects_loop y s b a w = subjects_loop y s b (Suc a) ?w'"
          using a(2) Returns None by (subst subjects_loop_unfold) simp
        with Suc.hyps(1)[OF a(1), of ?w'] show ?thesis
          using fr by (simp add: sleep_simps)
      qed
    qed
  qed
qed

lemma profile_attempt_frame:
  "outcomes (snd (profile_attempt u w)) = outcomes w"
  "subjects (snd (profile_attempt u w)) = subjects w"
  "students (snd (profile_attempt u w)) = students w"
  by (simp_all add: profile_attempt_snd)

lemma profile_loop_frame:
  "subjects (snd (profile_loop u a w)) = subjects w
     \<and> outcomes (snd (profile_loop u a w)) = outcomes w
     \<and> (\<forall>p. fst (profile_loop u a w) = Returns (Some p) \<longrightarrow>
            filter (\<lambda>r. student_id r = u) (students w) = [p])"
proof (induction "3 - a" arbitrary: a w)
  case 0
  then show ?case
    by (subst (1 2 3) profile_loop_unfold) simp
next
  case (Suc n)
  then have a: "n = 3 - Suc a" "a < 3"
    by simp_all
  note fr = profile_attempt_frame[of u w]
  let ?w' = "sleep (500 * 2 ^ a) (snd (profile_attempt u w))"
  show ?case
  proof (cases "fst (profile_attempt u w)")
    case Hangs
    then show ?thesis
      using profile_attempt_returns[of u w] by simp
  next
    case (Returns r)
    show ?thesis
    proof (cases r)
      case (Some v)
      then have "profile_loop u a w = (Returns v, snd (profile_attempt u w))"
        using a(2) Returns by (subst profile_loop_unfold) simp
      then show ?thesis
        using fr profile_attempt_found[of u w] Returns Some by auto
    next
      case None
      show ?thesis
      proof (cases "a = 2")
        case True
        then have "profile_loop u a w = (Returns None, snd (profile_attempt u w))"
          using Returns None by (subst profile_loop_unfold) simp
        then show ?thesis
          using fr by simp
      next
        case False
        then have "profile_loop u a w = profile_loop u (Suc a) ?w'"
          using a(2) Returns None by (subst profile_loop_unfold) simp
        with Suc.hyps(1)[OF a(1), of ?w'] show ?thesis
          using fr by (simp add: sleep_simps)
      qed
    qed
  qed
qed

lemma fetchStudentProfile_frame:
  "subjects (snd (fetchStudentProfile userId w)) = subjects w
   \<and> outcomes (snd (fetchStudentProfile userId w)) = outcomes w
   \<and> (\<forall>p. fst (fetchStudentProfile userId w) = Returns (Some p) \<longrightarrow>
          filter (\<lambda>r. student_id r = userId) (students w) = [p])"
proof (cases "userId = []")
  case True
  then show ?thesis
    by (simp add: fetchStudentProfile_def)
next
  case False
  from profile_loop_frame[of userId 0 "w\<lparr>requests := requests w @ [CountStudents]\<rparr>"]
  show ?thesis
    using False by (simp add: fetchStudentProfile_eq)
qed

lemma create_profile_result:
  assumes "createOrUpdateStudentProfile userId d w = (Returns (Some profile), w1)"
    and "p_academic_year d = Some y" and "p_semester d = Some s" and "p_branch d = Some b"
  shows "academic_year profile = y \<and> semester profile = s \<and> branch profile = b
       \<and> subjects w1 = subjects w
       \<and> filter (\<lambda>r. student_id r = student_id profile) (students w1) = [profile]"
proof (cases "userId = []")
  case True
  then show ?thesis
    using assms(1) by (simp add: createOrUpdateStudentProfile_def)
next
  case False
  show ?thesis
  proof (cases "outcomes w (length (requests w))")
    case Served
    then show ?thesis
      using assms False
      by (auto simp add: createOrUpdateStudentProfile_def prim_defs patch_def or_else_def
            split: list.splits)
  next
    case (Refused m)
    then show ?thesis
      using assms(1) False by (simp add: createOrUpdateStudentProfile_def prim_defs)
  next
    case (Rejected n m)
    then show ?thesis
      using assms(1) False by (simp add: createOrUpdateStudentProfile_def prim_defs)
  next
    case Unanswered
    then show ?thesis
      using assms(1) False by (simp add: createOrUpdateStudentProfile_def prim_defs)
  qed
qed

lemma fetchSubjects_sound:
  assumes "r = ByProfile profile \<or> r = ById (student_id profile)"
    and "filter (\<lambda>r. student_id r = student_id profile) (students w) = [profile]"
  shows "returned (fst (fetchSubjectsForStudent r w)) = []
     \<or> returned (fst (fetchSubjectsForStudent r w)) =
         filter (\<lambda>x. subj_academic_year x = academic_year profile
                      \<and> subj_semester x = semester profile
                      \<and> (subj_branch x = branch profile \<or> is_common x)) (subjects w)
     \<or> (filter (\<lambda>x. subj_academic_year x = academic_year profile
                      \<and> subj_semester x = semester profile
                      \<and> (subj_branch x = branch profile \<or> is_common x)) (subjects w) = []
         \<and> returned (fst (fetchSubjectsForStudent r w)) =
             filter (\<lambda>x. subj_academic_year x = academic_year profile \<or> is_common x) (subjects w))"
proof -
  from assms(1) show ?thesis
  proof
    assume "r = ByProfile profile"
    then show ?thesis
      using subjects_loop_sound[of "academic_year profile" "semester profile"
          "branch profile" 0 w]
      by (simp add: fetchSubjectsForStudent_def)
  next
    assume r: "r = ById (student_id profile)"
    let ?f = "fetchStudentProfile (student_id profile) w"
    note fr = fetchStudentProfile_frame[of "student_id profile" w]
    show ?thesis
    proof (cases "fst ?f")
      case Hangs
      then show ?thesis
        using r by (simp add: fetchSubjects_by_id split_def returned_def)
    next
      case (Returns found)
      show ?thesis
      proof (cases found)
        case None
        then show ?thesis
          using r Returns by (simp add: fetchSubjects_by_id split_def returned_def)
      next
        case (Some p)
        then have "p = profile"
          using fr assms(2) Returns by simp
        then have "fetchSubjectsForStudent r w =
            subjects_loop (academic_year profile) (semester profile) (branch profile) 0 (snd ?f)"
          using r Returns Some
          by (simp add: fetchSubjectsForStudent_def subjects_after_def split_def)
        then show ?thesis
          using subjects_loop_sound[of "academic_year profile" "semester profile"
              "branch profile" 0 "snd ?f"] fr
          by simp
      qed
    qed
  qed
qed

text \<open>
  Claim C3, as the code has it. For a profile with academic_year = 1, semester = 1,
  branch = "CSE" created through createOrUpdateStudentProfile, every subject that
  fetchSubjectsForStudent returns for it (given the profile or its id) has academic_year = 1,
  semester = 1 and either branch "CSE" or is_common = true; unless the store holds no such
  subject, in which case the permissive query of the second attempt may answer, and every
  subject returned has academic_year = 1 or is_common = true.
\<close>

theorem subjects_for_created_profile:
  assumes "createOrUpdateStudentProfile userId d w = (Returns (Some profile), w1)"
    and "p_academic_year d = Some 1" and "p_semester d = Some 1" and "p_branch d = Some ''CSE''"
    and "r = ByProfile profile \<or> r = ById (student_id profile)"
  shows "\<forall>x \<in> set (returned (fst (fetchSubjectsForStudent r w1))).
           (subj_academic_year x = 1 \<and> subj_semester x = 1
              \<and> (subj_branch x = ''CSE'' \<or> is_common x))
         \<or> ((\<forall>z \<in> set (subjects w1).
                 \<not> (subj_academic_year z = 1 \<and> subj_semester z = 1
                      \<and> (subj_branch z = ''CSE'' \<or> is_common z)))
             \<and> (subj_academic_year x = 1 \<or> is_common x))"
proof -
  from create_profile_result[OF assms(1,2,3,4)] have p:
    "academic_year profile = 1" "semester profile = 1" "branch profile = ''CSE''"
    "filter (\<lambda>r. student_id r = student_id profile) (students w1) = [profile]"
    by simp_all
  from fetchSubjects_sound[OF assms(5) p(4)] show ?thesis
    unfolding p(1,2,3) by (auto simp add: filter_empty_conv)
qed

theorem subjects_for_created_profile_witness:
  "createOrUpdateStudentProfile ''u1'' cse_patch cse_world =
     (Returns (Some cse_profile), snd (createOrUpdateStudentProfile ''u1'' cse_patch cse_world))
   \<and> p_academic_year cse_patch = Some 1 \<and> p_semester cse_patch = Some 1
   \<and> p_branch cse_patch = Some ''CSE''
   \<and> fst (fetchSubjectsForStudent (ByProfile cse_profile)
            (snd (createOrUpdateStudentProfile ''u1'' cse_patch cse_world))) =
       Returns [data_structures]
   \<and> subj_academic_year data_structures = 1 \<and> subj_semester data_structures = 1
   \<and> subj_branch data_structures = ''CSE''"
proof -
  let ?w1 = "snd (createOrUpdateStudentProfile ''u1'' cse_patch cse_world)"
  have result: "fst (fetchSubjectsForStudent (ByProfile cse_profile) ?w1) =
      Returns [data_structures]"
    by (simp add: createOrUpdateStudentProfile_def fetchSubjectsForStudent_def
          subjects_loop.simps subjects_attempt_def prim_defs cse_patch_def cse_profile_def
          circuits_def data_structures_def cse_world_def blank_world_def serve_all_def)
  have created: "createOrUpdateStudentProfile ''u1'' cse_patch cse_world =
      (Returns (Some cse_profile), ?w1)"
    by (simp add: createOrUpdateStudentProfile_def prim_defs cse_patch_def cse_profile_def
          cse_world_def blank_world_def serve_all_def patch_def or_else_def)
  have fields: "p_academic_year cse_patch = Some 1" "p_semester cse_patch = Some 1"
    "p_branch cse_patch = Some ''CSE''"
    by (simp_all add: cse_patch_def)
  have stored: "subjects ?w1 = [data_structures, circuits]"
    by (simp add: createOrUpdateStudentProfile_def prim_defs cse_patch_def
          cse_world_def blank_world_def serve_all_def)
  have some: "\<not> (\<forall>z \<in> set (subjects ?w1).
                 \<not> (subj_academic_year z = 1 \<and> subj_semester z = 1
                      \<and> (subj_branch z = ''CSE'' \<or> is_common z)))"
    unfolding stored by (simp add: data_structures_def)
  have not_common: "\<not> is_common data_structures"
    by (simp add: data_structures_def)
  have way: "ByProfile cse_profile = ByProfile cse_profile
             \<or> ByProfile cse_profile = ById (student_id cse_profile)"
    by simp
  have "subj_academic_year data_structures = 1 \<and> subj_semester data_structures = 1
      \<and> subj_branch data_structures = ''CSE''"
    using subjects_for_created_profile [OF created fields way] result some not_common
    by (auto simp add: returned_def)
  then show ?thesis
    using created fields result by simp
qed

text \<open>
  Claim C3 as stated fails when the store has no subject for (1, 1, CSE or common): the
  second attempt sends the permissive query (academic_year = 1 or is_common), and the
  subject of year 1, semester 2, branch ECE, not common, is returned.
\<close>

theorem permissive_fallback_counterexample:
  "fst (createOrUpdateStudentProfile ''u1'' cse_patch ece_world) = Returns (Some cse_profile)
   \<and> fst (fetchSubjectsForStudent (ByProfile cse_profile)
            (snd (createOrUpdateStudentProfile ''u1'' cse_patch ece_world))) =
       Returns [circuits]
   \<and> subj_semester circuits \<noteq> 1 \<and> subj_branch circuits \<noteq> ''CSE'' \<and> \<not> is_common circuits"
  by (simp add: createOrUpdateStudentProfile_def fetchSubjectsForStudent_def
        subjects_loop.simps subjects_attempt_def sleep_def prim_defs cse_patch_def
        cse_profile_def circuits_def ece_world_def blank_world_def serve_all_def patch_def
        or_else_def)

subsection \<open>Emergency mode\<close>

lemma force_flag: "isEmergencyMode (forceEmergencyMode h w)"
  by (simp add: forceEmergencyMode_def)

lemma force_timer: "retry_timers (forceEmergencyMode h w) = retry_timers h"
  by (simp add: forceEmergencyMode_def)

lemma flag_retryAttempt_effect:
  "isEmergencyMode (retryAttempt_effect h w) =
     (isEmergencyMode h \<or> (\<exists>n. retryAttempt h = Some n \<and> 3 < n))"
  by (cases "retryAttempt h") (simp_all add: retryAttempt_effect_def force_flag)

lemma flag_connection_effect:
  "isEmergencyMode (fst (connection_effect onLine h w)) =
     (isEmergencyMode h \<or> (has_user_id h \<and> \<not> onLine))"
  by (simp add: connection_effect_def test_connection_eq force_flag)

lemma flag_retry_timer_fired:
  "isEmergencyMode (fst (retry_timer_fired onLine h w)) =
     (isEmergencyMode h
      \<or> (0 < retry_timers h \<and> (\<not> onLine \<or> errored w (length (requests w)))))"
  by (simp add: retry_timer_fired_def Let_def force_flag test_connection_eq errored_iff)

lemma flag_handleOffline:
  "isEmergencyMode (handleOffline h w) = (isEmergencyMode h \<or> has_user_id h)"
  by (simp add: handleOffline_def force_flag)

lemma flag_queries:
  "isEmergencyMode (fst (step ProfileQuery (h, w))) = isEmergencyMode h"
  "isEmergencyMode (fst (step SubjectsQuery (h, w))) = isEmergencyMode h"
  "isEmergencyMode (fst (step BookmarksQuery (h, w))) = isEmergencyMode h"
  "isEmergencyMode (fst (step SubjectsDirectFetch (h, w))) = isEmergencyMode h"
  "isEmergencyMode (fst (step ProfileQueryStarts (h, w))) = isEmergencyMode h"
  "isEmergencyMode (fst (step ProfileQueryGoesOn (h, w))) = isEmergencyMode h"
  "isEmergencyMode (fst (step SubjectsQueryStarts (h, w))) = isEmergencyMode h"
  "isEmergencyMode (fst (step SubjectsQueryGoesOn (h, w))) = isEmergencyMode h"
  "isEmergencyMode (fst (step SubjectsRefetchEffect (h, w))) = isEmergencyMode h"
  by (simp_all add: split_def Let_def subjects_direct_fetch_def profile_query_goes_on_def
        subjects_query_goes_on_def subjects_refetch_effect_def
        split: option.splits result.splits)

lemma flag_step:
  "isEmergencyMode (fst (step e (h, w))) =
     (case e of
        RetryAttemptEffect \<Rightarrow> isEmergencyMode h \<or> (\<exists>n. retryAttempt h = Some n \<and> 3 < n)
      | ConnectionEffect onLine \<Rightarrow> isEmergencyMode h \<or> (has_user_id h \<and> \<not> onLine)
      | RetryTimer onLine \<Rightarrow>
          isEmergencyMode h
          \<or> (0 < retry_timers h \<and> (\<not> onLine \<or> errored w (length (requests w))))
      | BrowserOffline \<Rightarrow> isEmergencyMode h \<or> has_user_id h
      | ClickReconnect \<Rightarrow> False
      | _ \<Rightarrow> isEmergencyMode h)"
  by (cases e)
     (simp_all add: flag_retryAttempt_effect flag_connection_effect flag_retry_timer_fired
        flag_handleOffline flag_queries handleOnline_def attemptReconnection_def
        initial_home_def del: step.simps(6-9) step.simps(11-15))

lemma timer_queries:
  "retry_timers (fst (step ProfileQuery (h, w))) = retry_timers h"
  "retry_timers (fst (step SubjectsQuery (h, w))) = retry_timers h"
  "retry_timers (fst (step BookmarksQuery (h, w))) = retry_timers h"
  "retry_timers (fst (step SubjectsDirectFetch (h, w))) = retry_timers h"
  "retry_timers (fst (step ProfileQueryStarts (h, w))) = retry_timers h"
  "retry_timers (fst (step ProfileQueryGoesOn (h, w))) = retry_timers h"
  "retry_timers (fst (step SubjectsQueryStarts (h, w))) = retry_timers h"
  "retry_timers (fst (step SubjectsQueryGoesOn (h, w))) = retry_timers h"
  "retry_timers (fst (step SubjectsRefetchEffect (h, w))) = retry_timers h"
  by (simp_all add: split_def Let_def subjects_direct_fetch_def profile_query_goes_on_def
        subjects_query_goes_on_def subjects_refetch_effect_def
        split: option.splits result.splits)

lemma timer_step:
  "retry_timers (fst (step e (h, w))) =
     (case e of
        ConnectionEffect onLine \<Rightarrow>
          (if \<not> isEmergencyMode h \<and> has_user_id h \<and> onLine
              \<and> errored w (length (requests w))
           then Suc (retry_timers h) else retry_timers h)
      | RetryTimer onLine \<Rightarrow> retry_timers h - 1
      | ClickReconnect \<Rightarrow> 0
      | _ \<Rightarrow> retry_timers h)"
  by (cases e)
     (simp_all add: retryAttempt_effect_def connection_effect_def retry_timer_fired_def
        handleOffline_def handleOnline_def attemptReconnection_def initial_home_def
        force_timer Let_def test_connection_eq errored_iff timer_queries
        split: option.splits del: step.simps(6-9) step.simps(11-15))

lemma connection_effect_requests:
  "\<not> isEmergencyMode h \<Longrightarrow> has_user_id h \<Longrightarrow>
     requests (snd (connection_effect True h w)) = requests w @ [CountStudents]"
  by (simp add: connection_effect_def test_connection_eq)

lemma retry_timer_fired_requests:
  "0 < retry_timers h \<Longrightarrow>
     requests (snd (retry_timer_fired True h w)) = requests w @ [CountStudents]"
  by (simp add: retry_timer_fired_def Let_def test_connection_eq)

lemma flag_run:
  "ClickReconnect \<notin> set es \<Longrightarrow> isEmergencyMode (fst s) \<Longrightarrow> isEmergencyMode (fst (run es s))"
proof (induction es arbitrary: s)
  case Nil
  then show ?case
    by simp
next
  case (Cons e es)
  obtain h w where s: "s = (h, w)"
    by (cases s)
  have "isEmergencyMode (fst (step e s))"
    using Cons.prems unfolding s flag_step by (cases e) simp_all
  with Cons show ?case
    by simp
qed

text \<open>
  Claim C5, as the code has it. The emergency-mode flag turns from false to true only in
  one of these steps: the URL's retryAttempt is greater than 3 when its effect runs; the
  browser reports offline when the connection effect runs, when the offline event arrives
  or when a five-second timer fires; or the connectivity check sent by such a timer fails,
  a timer that only a failed first connectivity check of the connection effect sets. Once
  true, the flag stays true through every step other than the user's reconnect action
  (which reloads the page), also when the browser reports that it is back online. The
  timers of the two query handlers (lines 212 and 266) are not steps of the machine: they
  are set where fetchStudentProfile or fetchSubjectsForStudent throws, which they never do.
\<close>

theorem emergency_mode_activation_and_persistence:
  "(isEmergencyMode h \<and> e \<noteq> ClickReconnect \<longrightarrow> isEmergencyMode (fst (step e (h, w))))
   \<and> (isEmergencyMode h \<and> ClickReconnect \<notin> set es \<longrightarrow> isEmergencyMode (fst (run es (h, w))))
   \<and> (\<not> isEmergencyMode h \<and> isEmergencyMode (fst (step e (h, w))) \<longrightarrow>
          (e = RetryAttemptEffect \<and> (\<exists>n. retryAttempt h = Some n \<and> 3 < n))
        \<or> (e = ConnectionEffect False \<and> has_user_id h)
        \<or> (e = BrowserOffline \<and> has_user_id h)
        \<or> (e = RetryTimer False \<and> 0 < retry_timers h)
        \<or> (e = RetryTimer True \<and> 0 < retry_timers h
            \<and> outcomes w (length (requests w)) \<noteq> Served
            \<and> requests (snd (step e (h, w))) = requests w @ [CountStudents]))
   \<and> (retry_timers h < retry_timers (fst (step e (h, w))) \<longrightarrow>
          e = ConnectionEffect True \<and> outcomes w (length (requests w)) \<noteq> Served
          \<and> requests (snd (step e (h, w))) = requests w @ [CountStudents])"
proof -
  have stays: "isEmergencyMode h \<and> e \<noteq> ClickReconnect \<longrightarrow> isEmergencyMode (fst (step e (h, w)))"
    unfolding flag_step by (cases e) simp_all
  have runs: "isEmergencyMode h \<and> ClickReconnect \<notin> set es \<longrightarrow>
      isEmergencyMode (fst (run es (h, w)))"
    using flag_run[of es "(h, w)"] by simp
  have turns: "\<not> isEmergencyMode h \<and> isEmergencyMode (fst (step e (h, w))) \<longrightarrow>
          (e = RetryAttemptEffect \<and> (\<exists>n. retryAttempt h = Some n \<and> 3 < n))
        \<or> (e = ConnectionEffect False \<and> has_user_id h)
        \<or> (e = BrowserOffline \<and> has_user_id h)
        \<or> (e = RetryTimer False \<and> 0 < retry_timers h)
        \<or> (e = RetryTimer True \<and> 0 < retry_timers h
            \<and> outcomes w (length (requests w)) \<noteq> Served
            \<and> requests (snd (step e (h, w))) = requests w @ [CountStudents])"
  proof (cases e)
    case (RetryTimer onLine)
    then show ?thesis
      using flag_step[of e h w] retry_timer_fired_requests[of h w]
      by (cases onLine) (auto simp add: errored_iff)
  qed (use flag_step[of e h w] in auto)
  have timer: "retry_timers h < retry_timers (fst (step e (h, w))) \<longrightarrow>
          e = ConnectionEffect True \<and> outcomes w (length (requests w)) \<noteq> Served
          \<and> requests (snd (step e (h, w))) = requests w @ [CountStudents]"
  proof (cases e)
    case (ConnectionEffect onLine)
    then show ?thesis
      using timer_step[of e h w] connection_effect_requests[of h w]
      by (cases onLine) (auto simp add: errored_iff)
  qed (use timer_step[of e h w] in auto)
  show ?thesis
    using stays runs turns timer by blast
qed

theorem emergency_mode_activation_and_persistence_witness:
  "\<not> isEmergencyMode (fst waiting_page)
   \<and> retry_timers (fst waiting_page) = 1
   \<and> isEmergencyMode (fst (step (RetryTimer True) waiting_page))
   \<and> requests (snd (step (RetryTimer True) waiting_page)) = [CountStudents, CountStudents]
   \<and> isEmergencyMode (fst (run [BrowserOnline, ProfileQuery, ConnectionEffect True]
                             (step (RetryTimer True) waiting_page)))"
proof -
  let ?h = "fst waiting_page" and ?w = "snd waiting_page"
  let ?s = "step (RetryTimer True) waiting_page"
  have pair: "(?h, ?w) = waiting_page" "(fst ?s, snd ?s) = ?s"
    by simp_all
  have log: "requests ?w = [CountStudents]"
    by (simp add: waiting_page_def connection_effect_def initial_home_def has_user_id_def
          alice_def test_connection_eq blank_world_def refuse_all_def)
  have off: "\<not> isEmergencyMode ?h"
    by (simp add: waiting_page_def flag_connection_effect initial_home_def)
  have on: "isEmergencyMode (fst ?s)"
    using flag_step[of "RetryTimer True" ?h ?w] timer_step[of "ConnectionEffect True"
        "initial_home (Some alice) SecondListing (Some 0)" "blank_world refuse_all"]
    by (simp add: waiting_page_def initial_home_def has_user_id_def alice_def
          blank_world_def refuse_all_def connection_effect_def test_connection_eq
          errored_def)
  have quiet: "ClickReconnect \<notin> set [BrowserOnline, ProfileQuery, ConnectionEffect True]"
    by simp
  from emergency_mode_activation_and_persistence
         [of ?h "RetryTimer True" ?w "[]"] off on
  have caused: "0 < retry_timers ?h \<and> requests (snd ?s) = requests ?w @ [CountStudents]"
    unfolding pair by simp
  have one: "retry_timers ?h = 1"
    using timer_step[of "ConnectionEffect True"
        "initial_home (Some alice) SecondListing (Some 0)" "blank_world refuse_all"]
    by (simp add: waiting_page_def initial_home_def has_user_id_def alice_def
          blank_world_def refuse_all_def errored_def)
  from emergency_mode_activation_and_persistence
         [of "fst ?s" BrowserOnline "snd ?s" "[BrowserOnline, ProfileQuery, ConnectionEffect True]"]
       on quiet
  have kept: "isEmergencyMode (fst (run [BrowserOnline, ProfileQuery, ConnectionEffect True] ?s))"
    unfolding pair by blast
  show ?thesis
    using off on caused kept log one by simp
qed

text \<open>
  Claim C5 as stated fails: the flag becomes true on the browser's offline event with no
  connectivity check having failed; none has even been sent.
\<close>

theorem emergency_mode_without_failed_check_counterexample:
  "isEmergencyMode (fst (offline_page SecondListing))
   \<and> failed_checks (snd (offline_page SecondListing)) = 0
   \<and> requests (snd (offline_page SecondListing)) = []"
  by (simp add: offline_page_def handleOffline_def forceEmergencyMode_def initial_home_def
        has_user_id_def alice_def failed_checks_def saved_world_def blank_world_def)

lemma emergency_mode_gates_profile_and_subjects:
  "isEmergencyMode h \<Longrightarrow>
     step ProfileQuery (h, w) = (h, w) \<and> step SubjectsQuery (h, w) = (h, w)
     \<and> step ProfileQueryStarts (h, w) = (h, w) \<and> step SubjectsQueryStarts (h, w) = (h, w)"
  by (simp add: userProfile_enabled_def subjects_enabled_def)

lemma bookmarks_query_ignores_flag:
  assumes "has_user_id h"
  shows "requests (snd (step BookmarksQuery (h, w))) \<noteq> requests w"
proof -
  obtain a where a: "user h = Some a" "uid a \<noteq> []"
    using assms by (auto simp add: has_user_id_def split: option.splits)
  have "requests (snd (fetchUserBookmarks (bookmarks_module h) (uid a) w)) \<noteq> requests w"
    using a(2) by (cases "bookmarks_module h")
      (simp_all add: fetchUserBookmarks_def fetchUserBookmarks_single_attempt)
  then show ?thesis
    using a assms
    by (simp add: bookmarks_enabled_def bookmarks_queryFn_def split_def
          split: result.splits)
qed

text \<open>
  A run of the subjects query that has started before the flag is set goes on after it:
  here the browser goes offline between the run's connection test and the rest of it, and
  the run sends its two queries in emergency mode and writes its result over the
  placeholder subjects. When the service refuses everything the result is the empty list,
  and the refetch effect of lines 336 to 343 then starts another run, in emergency mode.
\<close>

lemma started_run_goes_on_in_emergency_mode:
  "isEmergencyMode (fst (run [SubjectsQueryStarts, BrowserOffline]
      (initial_home (Some alice) SecondListing (Some 0), campus serve_all)))
   \<and> cache_subjects (fst (run [SubjectsQueryStarts, BrowserOffline]
        (initial_home (Some alice) SecondListing (Some 0), campus serve_all))) =
       emergencySubjects ''2025-04-19T00:00:00.000Z''
   \<and> requests (snd (run [SubjectsQueryStarts, BrowserOffline]
        (initial_home (Some alice) SecondListing (Some 0), campus serve_all))) =
       [CountStudents]
   \<and> cache_subjects (fst (run [SubjectsQueryStarts, BrowserOffline, SubjectsQueryGoesOn]
        (initial_home (Some alice) SecondListing (Some 0), campus serve_all))) =
       [data_structures]
   \<and> requests (snd (run [SubjectsQueryStarts, BrowserOffline, SubjectsQueryGoesOn]
        (initial_home (Some alice) SecondListing (Some 0), campus serve_all))) =
       [CountStudents, SelectStudent ''u1'', SelectSubjects 1 1 ''CSE'']
   \<and> cache_subjects (fst (run [SubjectsQueryStarts, BrowserOffline, SubjectsQueryGoesOn]
        (initial_home (Some alice) SecondListing (Some 0), campus refuse_all))) = []
   \<and> requests (snd (run [SubjectsQueryStarts, BrowserOffline, SubjectsQueryGoesOn,
                         SubjectsRefetchEffect]
        (initial_home (Some alice) SecondListing (Some 0), campus refuse_all))) =
       [CountStudents, SelectStudent ''u1'', SelectStudent ''u1'', SelectStudent ''u1'',
        CountStudents]"
  by (simp add: initial_home_def subjects_enabled_def has_user_id_def alice_def
        query_starts_def test_connection_eq campus_def blank_world_def serve_all_def
        refuse_all_def
        handleOffline_def forceEmergencyMode_def now_def subjects_query_goes_on_def
        subjects_refetch_effect_def
        subjects_after_def profile_loop.simps subjects_loop.simps profile_attempt_def
        subjects_attempt_def prim_defs sleep_def cse_profile_def data_structures_def
        circuits_def)

text \<open>
  Claim C6, evaluated on the code. In emergency mode the profile query and the subjects
  query are disabled: react-query starts no run of them and they send nothing, and in the
  state that the offline event leaves the direct fetch of subjects does not run. The
  bookmarks query is enabled whenever a user is signed in, so when react-query runs it the
  page sends the bookmark queries to the data service and replaces the placeholder
  bookmarks of the cache with the rows that come back.
\<close>

theorem bookmarks_query_in_emergency_mode:
  "isEmergencyMode (fst (offline_page SecondListing))
   \<and> cache_bookmarks (fst (offline_page SecondListing)) = Some []
   \<and> requests (snd (offline_page SecondListing)) = []
   \<and> requests (snd (step BookmarksQuery (offline_page SecondListing))) =
       [SelectBookmarks [''id'', ''user_id'', ''note_id'', ''created_at''] ''u1'',
        SelectBookmarks [''id'', ''user_id'', ''subject_id'', ''created_at''] ''u1'']
   \<and> cache_bookmarks (fst (step BookmarksQuery (offline_page SecondListing))) =
       Some [\<lparr>bookmark_id = ''b1'', user_id = ''u1'', note_id = Some ''s1'', subject_id = None,
               bookmark_created_at = ''t''\<rparr>]
   \<and> requests (snd (step BookmarksQuery (offline_page FirstListing))) =
       [SelectBookmarks [''*''] ''u1'']
   \<and> step ProfileQuery (offline_page SecondListing) = offline_page SecondListing
   \<and> step SubjectsQuery (offline_page SecondListing) = offline_page SecondListing
   \<and> step SubjectsDirectFetch (offline_page SecondListing) = offline_page SecondListing"
  by (simp add: offline_page_def handleOffline_def forceEmergencyMode_def initial_home_def
        has_user_id_def alice_def saved_world_def blank_world_def serve_all_def
        bookmarks_enabled_def bookmarks_queryFn_def fetchUserBookmarks_def
        fetchUserBookmarks_a_def fetchUserBookmarks_b_def prim_defs project_def
        fulfilled_ok_def rows_of_def userProfile_enabled_def subjects_enabled_def
        subjects_direct_fetch_def emergencySubjects_def)

end
